theory Spec2Isabelle
  imports Main
begin

section \<open>JavaScript values, errors and the environment\<close>

text \<open>
  The library \<^verbatim>\<open>cc-api.js\<close> is embedded function by function. Every method of a class
  takes the object (a record) and the process-wide state (\<open>world\<close>) and returns the
  settled value of its promise together with the updated object and world. A rejected
  promise or a thrown exception is \<open>Inl\<close> of the error value, a resolved promise is
  \<open>Inr\<close> of the result.

  A flow of control is run to its end before the next one starts: the points where the
  source suspends (\<^verbatim>\<open>await\<close>, \<^verbatim>\<open>setTimeout\<close>, the events of a request) are taken in
  program order, and the delay of every \<^verbatim>\<open>setTimeout\<close> a flow waits for is added to
  \<open>elapsed\<close>.
\<close>

datatype js_error =
    Error string            \<comment> \<open>\<^verbatim>\<open>new Error(message)\<close>\<close>
  | TypeError string        \<comment> \<open>thrown by the engine or by Node\<close>
  | Undefined_reason        \<comment> \<open>\<^verbatim>\<open>reject()\<close> without an argument\<close>

text \<open>\<^verbatim>\<open>err.message\<close>; the source reads it from error objects only.\<close>

fun message :: "js_error \<Rightarrow> string" where
  "message (Error m) = m"
| "message (TypeError m) = m"
| "message Undefined_reason = ''''"

text \<open>
  String conversion of a value that may be \<^verbatim>\<open>undefined\<close>, as \<^verbatim>\<open>'docker stop ' + this.containerId\<close>
  performs it.
\<close>

fun js_str :: "string option \<Rightarrow> string" where
  "js_str None = ''undefined''"
| "js_str (Some s) = s"

fun digits :: "nat \<Rightarrow> string" where
  "digits n = (if n < 10 then [char_of (48 + n)] else digits (n div 10) @ [char_of (48 + n mod 10)])"

declare digits.simps [simp del]

definition js_num :: "int \<Rightarrow> string" where
  "js_num i = (if i < 0 then CHR ''-'' # digits (nat (- i)) else digits (nat i))"

text \<open>
  The outcome of one \<^verbatim>\<open>child_process.exec\<close> call: the callback receives either an error
  (kept as its string conversion, which \<^verbatim>\<open>new Error(error)\<close> takes as message) or the
  standard output.
\<close>

datatype exec_outcome = Exec_error string | Exec_ok string

text \<open>
  The process-wide state. \<open>availablePorts\<close> is the static array of \<^verbatim>\<open>SSHServer\<close>.
  \<open>execLog\<close> lists the commands handed to \<^verbatim>\<open>exec\<close>, in order; \<open>requestLog\<close> lists the
  requests sent to the agency (method and API path); \<open>portPolls\<close> counts the calls of
  \<^verbatim>\<open>availablePorts.shift()\<close>; \<open>timers\<close> lists the timers of the experiments (delay in
  milliseconds, and whether the timer is still armed); \<open>unhandled\<close> collects the
  rejections of promises nobody awaits.
\<close>

record world =
  availablePorts :: "int list"
  execLog :: "string list"
  requestLog :: "(string \<times> string) list"
  elapsed :: nat
  portPolls :: nat
  timers :: "(nat \<times> bool) list"
  unhandled :: "js_error list"

text \<open>
  The delay a timer really uses: \<^verbatim>\<open>setTimeout\<close> replaces a delay below 1 ms or above
  \<open>2\<^sup>3\<^sup>1 - 1\<close> ms by 1 ms.
\<close>

definition timer_delay :: "nat \<Rightarrow> nat" where
  "timer_delay d = (if d < 1 \<or> d > 2147483647 then 1 else d)"

section \<open>SSHServer\<close>

text \<open>
  The fields of the constructor. \<open>reservedPort\<close>, \<open>containerName\<close> and \<open>containerId\<close>
  are \<^verbatim>\<open>undefined\<close> (\<open>None\<close>) until assigned. \<open>reservePort_shadowed\<close> records that
  the object has an own property \<^verbatim>\<open>reservePort\<close> holding \<^verbatim>\<open>undefined\<close>, which hides the
  method of the class: \<^verbatim>\<open>freePort\<close> assigns it.
\<close>

record SSHServer =
  sharedDirectory :: "string option"
  image_srv :: string
  insidePort :: int
  containerPrefix :: string
  dockerSharedDirectory :: string
  maxStartRetries :: nat
  startTimeout :: nat
  maxStopRetries :: nat
  stopTimeout :: nat
  reservePortTimeout :: nat
  reservePortMaxTime :: nat
  username :: string
  password :: string
  reservedPort :: "int option"
  containerName :: "string option"
  containerId :: "string option"
  reservePort_shadowed :: bool

text \<open>
  The constructor; the two credentials come from \<^verbatim>\<open>generateRandomString\<close> (16 random
  hexadecimal characters), given here as arguments.
\<close>

definition new_SSHServer :: "string option \<Rightarrow> string \<Rightarrow> int \<Rightarrow> string \<Rightarrow> string \<Rightarrow> SSHServer" where
  "new_SSHServer dir img port user pass =
     \<lparr> sharedDirectory = dir, image_srv = img, insidePort = port,
       containerPrefix = ''sshserver_'', dockerSharedDirectory = ''/shared'',
       maxStartRetries = 3, startTimeout = 10000, maxStopRetries = 3, stopTimeout = 10000,
       reservePortTimeout = 30000, reservePortMaxTime = 3600000,
       username = user, password = pass,
       reservedPort = None, containerName = None, containerId = None,
       reservePort_shadowed = False \<rparr>"

definition getExistingSSHServer :: "string \<Rightarrow> int \<Rightarrow> string \<Rightarrow> string \<Rightarrow> SSHServer" where
  "getExistingSSHServer cid port user pass =
     (new_SSHServer None ''lscr.io/linuxserver/openssh-server:9.3_p2-r0-ls132'' 2222 user pass)
       \<lparr> containerId := Some cid, reservedPort := Some port \<rparr>"

subsection \<open>setPortRange\<close>

text \<open>The loop \<^verbatim>\<open>for (let i = firstPort; i <= lastPort; i++) availablePorts.push(i)\<close>.\<close>

function pushRange :: "int \<Rightarrow> int \<Rightarrow> int list \<Rightarrow> int list" where
  "pushRange i lastPort ports =
     (if i \<le> lastPort then pushRange (i + 1) lastPort (ports @ [i]) else ports)"
  by pat_completeness auto
termination
  by (relation "measure (\<lambda>(i, lastPort, ports). nat (lastPort + 1 - i))") auto

declare pushRange.simps [simp del]

definition setPortRange :: "int \<Rightarrow> int \<Rightarrow> world \<Rightarrow> world" where
  "setPortRange firstPort lastPort w =
     (if firstPort > lastPort then w
      else w\<lparr>availablePorts := pushRange firstPort lastPort []\<rparr>)"

text \<open>
  \<^verbatim>\<open>SSHServer.availablePorts.shift()\<close>: removes and returns the first port, or returns
  \<^verbatim>\<open>undefined\<close> on the empty array.
\<close>

definition shift :: "world \<Rightarrow> int option \<times> world" where
  "shift w =
     (case availablePorts w of
        [] \<Rightarrow> (None, w\<lparr>portPolls := Suc (portPolls w)\<rparr>)
      | p # rest \<Rightarrow> (Some p, w\<lparr>availablePorts := rest, portPolls := Suc (portPolls w)\<rparr>))"

subsection \<open>freePort\<close>

text \<open>
  \<^verbatim>\<open>if (this.reservedPort) { availablePorts.push(this.reservedPort); this.reservePort = undefined; }\<close>
  The condition is false for \<^verbatim>\<open>undefined\<close> and for port 0. The assignment writes the
  property \<^verbatim>\<open>reservePort\<close>; \<open>reservedPort\<close> keeps its value.
\<close>

definition freePort :: "SSHServer \<Rightarrow> world \<Rightarrow> SSHServer \<times> world" where
  "freePort s w =
     (case reservedPort s of
        None \<Rightarrow> (s, w)
      | Some p \<Rightarrow>
          if p = 0 then (s, w)
          else (s\<lparr>reservePort_shadowed := True\<rparr>,
                w\<lparr>availablePorts := availablePorts w @ [p]\<rparr>))"

subsection \<open>runDockerCommand\<close>

text \<open>
  The environment of the external commands: \<open>exec k cmd\<close> is the outcome of the call
  of \<^verbatim>\<open>exec(cmd, ...)\<close> made when \<open>k\<close> commands have been run before.

  \<open>runner_docker\<close> is the closure \<^verbatim>\<open>runner\<close> of the source. On an error it compares and increments
  \<open>retries\<close>, waits and runs again; when the retries are used up it rejects with
  \<^verbatim>\<open>new Error(error)\<close>. The \<^verbatim>\<open>resolve(stdout)\<close> that follows the \<^verbatim>\<open>reject\<close> has no effect on
  a settled promise.
\<close>

type_synonym exec_env = "nat \<Rightarrow> string \<Rightarrow> exec_outcome"

function runner_docker :: "exec_env \<Rightarrow> string \<Rightarrow> nat \<Rightarrow> nat \<Rightarrow> nat \<Rightarrow> world \<Rightarrow> (js_error + string) \<times> world" where
  "runner_docker ex cmd maxRetries timeout retries w =
     (case ex (length (execLog w)) cmd of
        Exec_ok stdout \<Rightarrow> (Inr stdout, w\<lparr>execLog := execLog w @ [cmd]\<rparr>)
      | Exec_error err \<Rightarrow>
          if retries < maxRetries
          then runner_docker ex cmd maxRetries timeout (Suc retries)
                 (w\<lparr>execLog := execLog w @ [cmd], elapsed := elapsed w + timeout\<rparr>)
          else (Inl (Error err), w\<lparr>execLog := execLog w @ [cmd]\<rparr>))"
  by pat_completeness auto
termination
  by (relation "measure (\<lambda>(ex, cmd, maxRetries, timeout, retries, w). maxRetries - retries)") auto

declare runner_docker.simps [simp del]

definition runDockerCommand :: "exec_env \<Rightarrow> string \<Rightarrow> nat \<Rightarrow> nat \<Rightarrow> world \<Rightarrow> (js_error + string) \<times> world" where
  "runDockerCommand ex cmd maxRetries timeout w = runner_docker ex cmd maxRetries timeout 0 w"

subsection \<open>startServer and stopServer\<close>

text \<open>\<^verbatim>\<open>String.prototype.trim\<close> on the ASCII white space and line terminators.\<close>

definition is_space :: "char \<Rightarrow> bool" where
  "is_space c = (c \<in> set [CHR 0x09, CHR 0x0A, CHR 0x0B, CHR 0x0C, CHR 0x0D, CHR 0x20])"

definition trim :: "string \<Rightarrow> string" where
  "trim s = rev (dropWhile is_space (rev (dropWhile is_space s)))"

definition startCommand :: "SSHServer \<Rightarrow> int \<Rightarrow> string" where
  "startCommand s p =
     ''docker run'' @
     '' -p '' @ js_num p @ '':'' @ js_num (insidePort s) @
     '' -v '' @ js_str (sharedDirectory s) @ '':'' @ dockerSharedDirectory s @
     '' -e PUID=1000'' @
     '' -e PGID=1000'' @
     '' -e PASSWORD_ACCESS=true'' @
     '' -e USER_NAME='' @ username s @
     '' -e USER_PASSWORD='' @ password s @
     '' -d'' @
     '' --name '' @ containerPrefix s @ js_num p @
     '' '' @ image_srv s"

definition startServer :: "exec_env \<Rightarrow> SSHServer \<Rightarrow> world \<Rightarrow> (js_error + unit) \<times> SSHServer \<times> world" where
  "startServer ex s w =
     (case reservedPort s of
        None \<Rightarrow>
          (Inl (Error (''Failed to start server: '' @ ''Reserve a Port before starting the server!'')), s, w)
      | Some p \<Rightarrow>
          let s1 = s\<lparr>containerName := Some (containerPrefix s @ js_num p)\<rparr> in
          (case runDockerCommand ex (startCommand s1 p) (maxStartRetries s1) (startTimeout s1) w of
             (Inl err, w1) \<Rightarrow> (Inl (Error (''Failed to start server: '' @ message err)), s1, w1)
           | (Inr stdout, w1) \<Rightarrow> (Inr (), s1\<lparr>containerId := Some (trim stdout)\<rparr>, w1)))"

definition stopServer :: "exec_env \<Rightarrow> SSHServer \<Rightarrow> world \<Rightarrow> (js_error + unit) \<times> SSHServer \<times> world" where
  "stopServer ex s w =
     (case runDockerCommand ex (''docker stop '' @ js_str (containerId s)) (maxStopRetries s) (stopTimeout s) w of
        (Inl err, w1) \<Rightarrow> (Inl (Error (''Failed to remove server: '' @ message err)), s, w1)
      | (Inr _, w1) \<Rightarrow>
          (case runDockerCommand ex (''docker rm '' @ js_str (containerId s)) (maxStopRetries s) (stopTimeout s) w1 of
             (Inl err, w2) \<Rightarrow> (Inl (Error (''Failed to remove server: '' @ message err)), s, w2)
           | (Inr _, w2) \<Rightarrow> (case freePort s w2 of (s', w3) \<Rightarrow> (Inr (), s', w3))))"

subsection \<open>fetchAndWaitForPort and reservePort\<close>

text \<open>
  \<^verbatim>\<open>retries++ > (this.reservePortMaxTime / this.reservePortTimeout)\<close> on numbers that are
  counts of milliseconds: the quotient is exact or infinite (or \<^verbatim>\<open>NaN\<close> for 0/0), and no
  number is greater than an infinite one or than \<^verbatim>\<open>NaN\<close>.
\<close>

definition exceeds_quotient :: "nat \<Rightarrow> nat \<Rightarrow> nat \<Rightarrow> bool" where
  "exceeds_quotient retries maxTime timeout = (timeout \<noteq> 0 \<and> retries * timeout > maxTime)"

text \<open>
  \<open>runner_port\<close> is the closure \<^verbatim>\<open>runner\<close> of \<^verbatim>\<open>fetchAndWaitForPort\<close>, a plain
  \<^verbatim>\<open>function () {...}\<close> that reads \<^verbatim>\<open>this.reservePortMaxTime\<close> and \<^verbatim>\<open>this.reservePortTimeout\<close>.
  The first poll is started by \<^verbatim>\<open>runner.call(this)\<close>, with the server as \<^verbatim>\<open>this\<close>. Every
  later poll is started by \<^verbatim>\<open>setTimeout(runner, ...)\<close>, which calls the function with the
  timer object as \<^verbatim>\<open>this\<close>: both fields are \<^verbatim>\<open>undefined\<close> there, their quotient is
  \<^verbatim>\<open>NaN\<close>, the test \<^verbatim>\<open>retries++ > NaN\<close> is false, and the delay handed to the next
  \<^verbatim>\<open>setTimeout\<close> is \<^verbatim>\<open>undefined\<close>, which the timer takes as 1 ms. The argument \<open>this\<close>
  is \<open>Some s\<close> at the first poll and \<open>None\<close> at the later ones.

  While the flow waits, other flows may return ports to the array: \<open>released k\<close> lists
  the ports they have pushed when the wait that follows poll \<open>k\<close> (counted from 0) ends.
  The loop need not end, so the result is optional: \<open>None\<close> stands for a promise that
  never settles.
\<close>

partial_function (option) runner_port ::
  "(nat \<Rightarrow> int list) \<Rightarrow> SSHServer option \<Rightarrow> nat \<Rightarrow> world \<Rightarrow> ((js_error + int) \<times> world) option" where
  "runner_port released this retries w =
     (case shift w of
        (Some p, w1) \<Rightarrow> Some (Inr p, w1)
      | (None, w1) \<Rightarrow>
          if (case this of
                Some s \<Rightarrow> exceeds_quotient retries (reservePortMaxTime s) (reservePortTimeout s)
              | None \<Rightarrow> False)
          then Some (Inl Undefined_reason, w1)
          else runner_port released None (Suc retries)
                 (w1\<lparr>elapsed := elapsed w1 + (case this of
                                                  Some s \<Rightarrow> timer_delay (reservePortTimeout s)
                                                | None \<Rightarrow> 1),
                     availablePorts := availablePorts w1 @ released retries\<rparr>))"

definition fetchAndWaitForPort ::
  "(nat \<Rightarrow> int list) \<Rightarrow> SSHServer \<Rightarrow> world \<Rightarrow> ((js_error + int) \<times> world) option" where
  "fetchAndWaitForPort released s w = runner_port released (Some s) 0 w"

text \<open>
  \<^verbatim>\<open>this.reservedPort = await this.fetchAndWaitForPort()\<close>: a rejection leaves the await
  as an exception, before the assignment. The test for \<^verbatim>\<open>undefined\<close> that follows cannot
  succeed, since the promise resolves with a port only. On an object whose method is
  shadowed the call itself throws.
\<close>

definition reservePort ::
  "(nat \<Rightarrow> int list) \<Rightarrow> SSHServer \<Rightarrow> world \<Rightarrow> ((js_error + int) \<times> SSHServer \<times> world) option" where
  "reservePort released s w =
     (if reservePort_shadowed s
      then Some (Inl (TypeError ''sshServer.reservePort is not a function''), s, w)
      else case fetchAndWaitForPort released s w of
             None \<Rightarrow> None
           | Some (Inl err, w1) \<Rightarrow> Some (Inl err, s, w1)
           | Some (Inr p, w1) \<Rightarrow> Some (Inr p, s\<lparr>reservedPort := Some p\<rparr>, w1))"

section \<open>The job description (RED)\<close>

text \<open>
  The documents the library builds. An object is the list of its properties;
  \<open>set_prop\<close> is the assignment \<^verbatim>\<open>obj[key] = value\<close>, which overwrites a property in
  place or appends a new one. Property names are kept in the order of their first
  assignment (an engine lists names that are array indices first).
\<close>

datatype json =
    JUndefined | JNull | JBool bool | JNum int | JStr string
  | JArr "json list" | JObj "(string \<times> json) list"

fun set_prop :: "string \<Rightarrow> json \<Rightarrow> (string \<times> json) list \<Rightarrow> (string \<times> json) list" where
  "set_prop k v [] = [(k, v)]"
| "set_prop k v ((k', v') # kvs) = (if k = k' then (k, v) # kvs else (k', v') # set_prop k v kvs)"

text \<open>
  The connectors; the last argument of the first two is the property \<^verbatim>\<open>auth\<close>, absent
  until \<^verbatim>\<open>setAuth\<close> is called.
\<close>

datatype connector =
    CCSSHConnector string int string bool bool "json option"
      \<comment> \<open>host, port, path, isDirectory, isMountable, auth\<close>
  | CCHTTPConnector string string bool "json option"
      \<comment> \<open>url, method, disableSSLVerification, auth\<close>
  | CCFTPConnector string
      \<comment> \<open>url\<close>

fun getRED :: "connector \<Rightarrow> js_error + json" where
  "getRED (CCSSHConnector host port path isDirectory isMountable auth) =
     (case auth of
        None \<Rightarrow> Inl (Error ''No authentification method set! Use setAuth().'')
      | Some a \<Rightarrow>
          Inr (JObj ([(''command'', JStr ''red-connector-ssh''),
                      (''access'', JObj ([(''host'', JStr host), (''port'', JNum port), (''auth'', a)]
                                         @ (if isDirectory then [(''dirPath'', JStr path)]
                                            else [(''filePath'', JStr path)])))]
                     @ (if isMountable then [(''mount'', JBool True)] else []))))"
| "getRED (CCHTTPConnector url method disableSSLVerification auth) =
     Inr (JObj [(''command'', JStr ''red-connector-http''),
                (''access'', JObj ([(''url'', JStr url), (''method'', JStr method),
                                    (''disableSSLVerification'', JBool disableSSLVerification)]
                                   @ (case auth of None \<Rightarrow> [] | Some a \<Rightarrow> [(''auth'', a)])))])"
| "getRED (CCFTPConnector url) =
     Inr (JObj [(''command'', JStr ''red-connector-ftp''), (''access'', JObj [(''url'', JStr url)])])"

record CCInput =
  input_name :: string
  input_type :: string
  input_position :: int
  input_value :: json
  input_connector :: "connector option"

record CCOutput =
  output_name :: string
  output_type :: string
  output_glob :: "string option"
  output_connector :: "connector option"

definition getREDCliInput :: "CCInput \<Rightarrow> json" where
  "getREDCliInput i =
     JObj [(''type'', JStr (input_type i)),
           (''inputBinding'', JObj [(''position'', JNum (input_position i))])]"

definition getREDInput :: "CCInput \<Rightarrow> js_error + json" where
  "getREDInput i =
     (if input_type i = ''string'' then Inr (input_value i)
      else case input_connector i of
             None \<Rightarrow> Inl (TypeError ''Cannot read properties of undefined (reading 'getRED')'')
           | Some c \<Rightarrow>
               (case getRED c of
                  Inl err \<Rightarrow> Inl err
                | Inr r \<Rightarrow> Inr (JObj [(''class'', JStr (input_type i)), (''connector'', r)])))"

definition getREDCliOutput :: "CCOutput \<Rightarrow> json" where
  "getREDCliOutput out =
     JObj ([(''type'', JStr (output_type out))]
           @ (case output_glob out of
                None \<Rightarrow> []
              | Some g \<Rightarrow> if g = '''' then [] else [(''outputBinding'', JObj [(''glob'', JStr g)])]))"

definition getREDOutput :: "CCOutput \<Rightarrow> js_error + json" where
  "getREDOutput out =
     (case output_connector out of
        None \<Rightarrow> Inl (TypeError ''Cannot read properties of undefined (reading 'getRED')'')
      | Some c \<Rightarrow>
          (case getRED c of
             Inl err \<Rightarrow> Inl err
           | Inr r \<Rightarrow> Inr (JObj [(''class'', JStr (output_type out)), (''connector'', r)])))"

section \<open>CCExperiment\<close>

text \<open>
  The fields of the constructor. \<open>baseComand\<close>, \<open>image_exp\<close> and \<open>ram\<close> are passed on to
  the job description as they are. \<open>sshServer\<close> holds the attached server; the
  experiment is the only holder of the object in what follows, so the server is kept
  in the experiment and written back after every call on it. \<open>timeoutFunction\<close> is the
  handle of the timer: its index in the list \<open>timers\<close> of the world.
\<close>

record CCExperiment =
  ccAgencyUrl :: string
  ccAgencyUsername :: string
  ccAgencyPassword :: string
  baseComand :: json
  image_exp :: json
  ram :: json
  timeout :: int
  inputs :: "CCInput list"
  outputs :: "CCOutput list"
  gpus :: "json list"
  currentStatus :: "string option"
  experimentId :: "string option"
  batchId :: "string option"
  debugInfo :: json
  sshServer :: "SSHServer option"
  red :: "json option"
  timeoutFunction :: "nat option"

definition new_CCExperiment :: "string \<Rightarrow> string \<Rightarrow> string \<Rightarrow> json \<Rightarrow> json \<Rightarrow> json \<Rightarrow> int \<Rightarrow> CCExperiment" where
  "new_CCExperiment url user pass cmd img mem tmo =
     \<lparr> ccAgencyUrl = url, ccAgencyUsername = user, ccAgencyPassword = pass,
       baseComand = cmd, image_exp = img, ram = mem, timeout = tmo,
       inputs = [], outputs = [], gpus = [],
       currentStatus = Some ''unknown'', experimentId = None, batchId = None,
       debugInfo = JUndefined, sshServer = None, red = None, timeoutFunction = None \<rparr>"

definition getExistingExperiment :: "string \<Rightarrow> string \<Rightarrow> string \<Rightarrow> string \<Rightarrow> CCExperiment" where
  "getExistingExperiment url user pass eid =
     (new_CCExperiment url user pass JUndefined JUndefined JUndefined 0)\<lparr>experimentId := Some eid\<rparr>"

definition addInput :: "CCInput \<Rightarrow> CCExperiment \<Rightarrow> CCExperiment" where
  "addInput i e = e\<lparr>inputs := inputs e @ [i]\<rparr>"

definition addOutput :: "CCOutput \<Rightarrow> CCExperiment \<Rightarrow> CCExperiment" where
  "addOutput out e = e\<lparr>outputs := outputs e @ [out]\<rparr>"

definition setSSHServer :: "SSHServer \<Rightarrow> CCExperiment \<Rightarrow> CCExperiment" where
  "setSSHServer s e = e\<lparr>sshServer := Some s\<rparr>"

subsection \<open>createRED\<close>

definition getREDCli :: "CCExperiment \<Rightarrow> json" where
  "getREDCli e =
     JObj [(''cwlVersion'', JStr ''v1.0''),
           (''class'', JStr ''CommandLineTool''),
           (''baseCommand'', baseComand e),
           (''inputs'', JObj (fold (\<lambda>i kvs. set_prop (input_name i) (getREDCliInput i) kvs) (inputs e) [])),
           (''outputs'', JObj (fold (\<lambda>out kvs. set_prop (output_name out) (getREDCliOutput out) kvs) (outputs e) [])),
           (''stdout'', JStr ''stdout.txt''),
           (''stderr'', JStr ''stderr.txt'')]"

text \<open>The two \<^verbatim>\<open>forEach\<close> loops; an exception of \<^verbatim>\<open>getRED\<close> leaves the loop at once.\<close>

fun redInputs :: "CCInput list \<Rightarrow> (string \<times> json) list \<Rightarrow> js_error + (string \<times> json) list" where
  "redInputs [] kvs = Inr kvs"
| "redInputs (i # rest) kvs =
     (case getREDInput i of
        Inl err \<Rightarrow> Inl err
      | Inr r \<Rightarrow> redInputs rest (set_prop (input_name i) r kvs))"

fun redOutputs :: "CCOutput list \<Rightarrow> (string \<times> json) list \<Rightarrow> js_error + (string \<times> json) list" where
  "redOutputs [] kvs = Inr kvs"
| "redOutputs (out # rest) kvs =
     (case getREDOutput out of
        Inl err \<Rightarrow> Inl err
      | Inr r \<Rightarrow> redOutputs rest (set_prop (output_name out) r kvs))"

definition getREDInputs :: "CCExperiment \<Rightarrow> js_error + json" where
  "getREDInputs e =
     (if length (inputs e) = 0 then Inl (Error ''No inputs defined! Add at least one input.'')
      else case redInputs (inputs e) [] of
             Inl err \<Rightarrow> Inl err
           | Inr kvs \<Rightarrow> Inr (JObj kvs))"

definition getREDOutputs :: "CCExperiment \<Rightarrow> js_error + json" where
  "getREDOutputs e =
     (case redOutputs (outputs e) [] of
        Inl err \<Rightarrow> Inl err
      | Inr kvs \<Rightarrow> Inr (JObj kvs))"

definition getREDContainer :: "CCExperiment \<Rightarrow> json" where
  "getREDContainer e =
     JObj [(''engine'', JStr ''docker''),
           (''settings'',
            JObj ([(''image'', JObj [(''url'', image_exp e)]), (''ram'', ram e)]
                  @ (if length (gpus e) > 0
                     then [(''gpus'', JObj [(''vendor'', JStr ''nvidia''), (''devices'', JArr (gpus e))])]
                     else [])))]"

definition getREDExecution :: "CCExperiment \<Rightarrow> json" where
  "getREDExecution e =
     JObj [(''engine'', JStr ''ccagency''),
           (''settings'',
            JObj [(''access'',
                   JObj [(''url'', JStr (ccAgencyUrl e)),
                         (''auth'', JObj [(''username'', JStr (ccAgencyUsername e)),
                                          (''password'', JStr (ccAgencyPassword e))])])])]"

text \<open>
  The properties of the object literal are evaluated in the order written: the command
  line description first, then the inputs, the outputs, the container and the
  execution settings. \<open>red\<close> is assigned only when all of them have returned.
\<close>

definition createRED :: "CCExperiment \<Rightarrow> js_error + CCExperiment" where
  "createRED e =
     (let cli = getREDCli e in
      case getREDInputs e of
        Inl err \<Rightarrow> Inl err
      | Inr ins \<Rightarrow>
          (case getREDOutputs e of
             Inl err \<Rightarrow> Inl err
           | Inr outs \<Rightarrow>
               Inr (e\<lparr>red := Some (JObj [(''redVersion'', JStr ''9''),
                                          (''cli'', cli),
                                          (''inputs'', ins),
                                          (''outputs'', outs),
                                          (''container'', getREDContainer e),
                                          (''execution'', getREDExecution e)])\<rparr>)))"

subsection \<open>The agency\<close>

text \<open>
  What a request to the agency ends in: the \<^verbatim>\<open>error\<close> event of the request, with the
  message of its error; a body on which \<^verbatim>\<open>JSON.parse\<close> throws (or whose value is
  \<^verbatim>\<open>null\<close>, on which the first property read throws), with the message of the exception;
  or a parsed document. The documents are taken at the schema of the agency: the
  identifiers and states are strings where present, \<open>None\<close> where the property is
  missing.
\<close>

datatype 'a reply = Request_error string | Parse_error string | Parsed 'a

record batch_ref =
  ref_id :: "string option"
  ref_experimentId :: "string option"

record history_entry =
  entry_state :: "string option"
  entry_debugInfo :: json

record batch_doc =
  doc_state :: "string option"
  doc_history :: "history_entry list option"

text \<open>The reply to a stream request: an \<^verbatim>\<open>error\<close> event, or a status code and a body.\<close>

datatype stream_reply = Stream_error string | Response nat string

text \<open>
  The environment of a run. Each function of the agency takes the number of requests
  sent before and the API path (and the body, for the submission). \<open>valid_URL\<close>
  tells whether \<^verbatim>\<open>new URL(...)\<close> accepts the string.
\<close>

record environment =
  exec :: exec_env
  valid_URL :: "string \<Rightarrow> bool"
  submit :: "nat \<Rightarrow> json \<Rightarrow> string option reply"
  listBatches :: "nat \<Rightarrow> string \<Rightarrow> batch_ref list reply"
  getBatch :: "nat \<Rightarrow> string \<Rightarrow> batch_doc reply"
  deleteBatch :: "nat \<Rightarrow> string \<Rightarrow> string option reply"
  getBatchStream :: "nat \<Rightarrow> string \<Rightarrow> stream_reply"

text \<open>\<^verbatim>\<open>!x\<close> on a string that may be \<^verbatim>\<open>undefined\<close>.\<close>

fun falsy :: "string option \<Rightarrow> bool" where
  "falsy None = True"
| "falsy (Some s) = (s = '''')"

definition send :: "string \<Rightarrow> string \<Rightarrow> world \<Rightarrow> world" where
  "send method path w = w\<lparr>requestLog := requestLog w @ [(method, path)]\<rparr>"

subsection \<open>The timeout timer\<close>

fun disarm :: "nat \<Rightarrow> (nat \<times> bool) list \<Rightarrow> (nat \<times> bool) list" where
  "disarm h [] = []"
| "disarm 0 ((d, a) # ts) = (d, False) # ts"
| "disarm (Suc h) (t # ts) = t # disarm h ts"

definition startTimeoutTimer :: "CCExperiment \<Rightarrow> world \<Rightarrow> CCExperiment \<times> world" where
  "startTimeoutTimer e w =
     (if timeout e > 0
      then (e\<lparr>timeoutFunction := Some (length (timers w))\<rparr>,
            w\<lparr>timers := timers w @ [(timer_delay (nat (timeout e * 1000 * 60)), True)]\<rparr>)
      else (e, w))"

definition clearTimeoutTimer :: "CCExperiment \<Rightarrow> world \<Rightarrow> world" where
  "clearTimeoutTimer e w =
     (case timeoutFunction e of
        None \<Rightarrow> w
      | Some h \<Rightarrow> w\<lparr>timers := disarm h (timers w)\<rparr>)"

subsection \<open>Stopping the attached server\<close>

text \<open>
  \<^verbatim>\<open>if (this.sshServer) { this.sshServer.stopServer(); }\<close> The call is not awaited: its
  outcome does not reach the caller, and a rejection stays unhandled.
\<close>

definition stopAttached :: "exec_env \<Rightarrow> CCExperiment \<Rightarrow> world \<Rightarrow> CCExperiment \<times> world" where
  "stopAttached ex e w =
     (case sshServer e of
        None \<Rightarrow> (e, w)
      | Some s \<Rightarrow>
          (case stopServer ex s w of
             (Inl err, s', w') \<Rightarrow> (e\<lparr>sshServer := Some s'\<rparr>, w'\<lparr>unhandled := unhandled w' @ [err]\<rparr>)
           | (Inr _, s', w') \<Rightarrow> (e\<lparr>sshServer := Some s'\<rparr>, w')))"

subsection \<open>startExperiment\<close>

definition startExperiment ::
  "environment \<Rightarrow> CCExperiment \<Rightarrow> world \<Rightarrow> (js_error + string) \<times> CCExperiment \<times> world" where
  "startExperiment env e w =
     (case (if red e = None then createRED e else Inr e) of
        Inl err \<Rightarrow> (Inl err, e, w)
      | Inr e1 \<Rightarrow>
          (case (case sshServer e1 of
                   None \<Rightarrow> (Inr (), e1, w)
                 | Some s \<Rightarrow>
                     (case startServer (exec env) s w of
                        (r, s', w') \<Rightarrow> (r, e1\<lparr>sshServer := Some s'\<rparr>, w'))) of
             (Inl err, e2, w2) \<Rightarrow> (Inl err, e2, w2)
           | (Inr _, e2, w2) \<Rightarrow>
               if \<not> valid_URL env (ccAgencyUrl e2) then (Inl (TypeError ''Invalid URL''), e2, w2)
               else
                 let w3 = send ''POST'' ''red'' w2 in
                 (case submit env (length (requestLog w2)) (case red e2 of Some r \<Rightarrow> r | None \<Rightarrow> JUndefined) of
                    Request_error m \<Rightarrow>
                      (case stopAttached (exec env) e2 w3 of
                         (e3, w4) \<Rightarrow> (Inl (Error (''HTTP request error: '' @ m)), e3, w4))
                  | Parse_error m \<Rightarrow>
                      (Inl (Error (''Failed to parse the response data: '' @ m)), e2, w3)
                  | Parsed eid \<Rightarrow>
                      if falsy eid
                      then (Inl (Error ''Experiment ID not returned in the response.''), e2, w3)
                      else (case startTimeoutTimer (e2\<lparr>experimentId := eid\<rparr>) w3 of
                              (e3, w4) \<Rightarrow> (Inr (js_str eid), e3, w4)))))"

subsection \<open>getBatchId\<close>

text \<open>The scan of the batches for the first one of this experiment.\<close>

fun findBatch :: "string option \<Rightarrow> batch_ref list \<Rightarrow> batch_ref option" where
  "findBatch eid [] = None"
| "findBatch eid (b # bs) = (if ref_experimentId b = eid then Some b else findBatch eid bs)"

definition getBatchId ::
  "environment \<Rightarrow> CCExperiment \<Rightarrow> world \<Rightarrow> (js_error + string option) \<times> world" where
  "getBatchId env e w =
     (if \<not> valid_URL env (ccAgencyUrl e) then (Inl (TypeError ''Invalid URL''), w)
      else
        let path = ''batches?experimentId='' @ js_str (experimentId e);
            w1 = send ''GET'' path w
        in case listBatches env (length (requestLog w)) path of
             Request_error m \<Rightarrow> (Inl (Error (''HTTP request error: '' @ m)), w1)
           | Parse_error m \<Rightarrow> (Inl (Error (''Failed to parse the response data: '' @ m)), w1)
           | Parsed batches \<Rightarrow>
               (case findBatch (experimentId e) batches of
                  Some b \<Rightarrow> (Inr (ref_id b), w1)
                | None \<Rightarrow> (Inl (Error ''Experiment ID not found.''), w1)))"

subsection \<open>fetchCurrentStatus\<close>

text \<open>
  The loop over the history: the first entry, in the order of the response, whose state
  is \<^verbatim>\<open>failed\<close> gives the new \<open>debugInfo\<close> and ends the loop; without such an entry the
  old value stays.
\<close>

fun scanHistory :: "history_entry list \<Rightarrow> json \<Rightarrow> json" where
  "scanHistory [] d = d"
| "scanHistory (h # hs) d =
     (if entry_state h = Some ''failed'' then entry_debugInfo h else scanHistory hs d)"

text \<open>
  The body of the promise of \<^verbatim>\<open>fetchCurrentStatus\<close>, entered with the batch identifier
  known. A missing history makes the loop throw inside the \<^verbatim>\<open>try\<close> block, after the status
  has been assigned.
\<close>

definition requestStatus ::
  "environment \<Rightarrow> CCExperiment \<Rightarrow> world \<Rightarrow> (js_error + string option) \<times> CCExperiment \<times> world" where
  "requestStatus env e w =
     (if \<not> valid_URL env (ccAgencyUrl e) then (Inl (TypeError ''Invalid URL''), e, w)
      else
        let path = ''batches/'' @ js_str (batchId e);
            w1 = send ''GET'' path w
        in case getBatch env (length (requestLog w)) path of
             Request_error m \<Rightarrow> (Inl (Error (''HTTP request error: '' @ m)), e, w1)
           | Parse_error m \<Rightarrow> (Inl (Error (''Failed to parse the response data: '' @ m)), e, w1)
           | Parsed doc \<Rightarrow>
               let e1 = e\<lparr>currentStatus := doc_state doc\<rparr> in
               (case (if currentStatus e1 = Some ''failed''
                      then (case doc_history doc of
                              None \<Rightarrow> Inl (TypeError ''json_response.history is not iterable'')
                            | Some h \<Rightarrow> Inr (e1\<lparr>debugInfo := scanHistory h (debugInfo e1)\<rparr>))
                      else Inr e1) of
                  Inl err \<Rightarrow> (Inl (Error (''Failed to parse the response data: '' @ message err)), e1, w1)
                | Inr e2 \<Rightarrow>
                    if currentStatus e2 = Some ''succeeded'' \<or> currentStatus e2 = Some ''failed''
                    then (case stopAttached (exec env) e2 (clearTimeoutTimer e2 w1) of
                            (e3, w2) \<Rightarrow> (Inr (currentStatus e2), e3, w2))
                    else (Inr (currentStatus e2), e2, w1)))"

definition fetchCurrentStatus ::
  "environment \<Rightarrow> CCExperiment \<Rightarrow> world \<Rightarrow> (js_error + string option) \<times> CCExperiment \<times> world" where
  "fetchCurrentStatus env e w =
     (if falsy (batchId e)
      then (case getBatchId env e w of
              (Inl err, w1) \<Rightarrow> (Inr (currentStatus e), e, w1)
            | (Inr b, w1) \<Rightarrow> requestStatus env (e\<lparr>batchId := b\<rparr>) w1)
      else requestStatus env e w)"

subsection \<open>cancelExperiment\<close>

text \<open>
  \<open>requestCancel\<close> is the part of \<^verbatim>\<open>cancelExperiment\<close> that follows the lookup of the batch
  identifier: the timer is cleared, the \<^verbatim>\<open>DELETE\<close> request is sent, and when its answer
  parses the promise resolves and the attached server is stopped. A failed lookup makes
  \<^verbatim>\<open>cancelExperiment\<close> return \<^verbatim>\<open>false\<close>.
\<close>

definition requestCancel ::
  "environment \<Rightarrow> CCExperiment \<Rightarrow> world \<Rightarrow> (js_error + bool) \<times> CCExperiment \<times> world" where
  "requestCancel env e w =
     (let w0 = clearTimeoutTimer e w in
      if \<not> valid_URL env (ccAgencyUrl e) then (Inl (TypeError ''Invalid URL''), e, w0)
      else
        let path = ''batches/'' @ js_str (batchId e);
            w1 = send ''DELETE'' path w0
        in case deleteBatch env (length (requestLog w0)) path of
             Request_error m \<Rightarrow> (Inl (Error (''HTTP request error: '' @ m)), e, w1)
           | Parse_error m \<Rightarrow> (Inl (Error (''Failed to parse the response data: '' @ m)), e, w1)
           | Parsed st \<Rightarrow>
               (case stopAttached (exec env) e w1 of
                  (e1, w2) \<Rightarrow> (Inr (st = Some ''cancelled''), e1, w2)))"

definition cancelExperiment ::
  "environment \<Rightarrow> CCExperiment \<Rightarrow> world \<Rightarrow> (js_error + bool) \<times> CCExperiment \<times> world" where
  "cancelExperiment env e w =
     (if falsy (batchId e)
      then (case getBatchId env e w of
              (Inl err, w1) \<Rightarrow> (Inr False, e, w1)
            | (Inr b, w1) \<Rightarrow> requestCancel env (e\<lparr>batchId := b\<rparr>) w1)
      else requestCancel env e w)"

subsection \<open>getStd, getStdout and getStderr\<close>

text \<open>
  \<^verbatim>\<open>getStd\<close> is not an \<^verbatim>\<open>async\<close> function: an invalid URL makes the call itself throw. It
  reads \<open>batchId\<close> as it is.
\<close>

definition getStd :: "environment \<Rightarrow> CCExperiment \<Rightarrow> string \<Rightarrow> world \<Rightarrow> (js_error + string) \<times> world" where
  "getStd env e stream w =
     (if \<not> valid_URL env (ccAgencyUrl e) then (Inl (TypeError ''Invalid URL''), w)
      else
        let path = ''batches/'' @ js_str (batchId e) @ ''/'' @ stream;
            w1 = send ''GET'' path w
        in case getBatchStream env (length (requestLog w)) path of
             Stream_error m \<Rightarrow> (Inl (Error (''HTTP request error: '' @ m)), w1)
           | Response statusCode buffer \<Rightarrow>
               (Inr (if statusCode \<ge> 400 then '''' else buffer), w1))"

definition getStdout :: "environment \<Rightarrow> CCExperiment \<Rightarrow> world \<Rightarrow> (js_error + string) \<times> world" where
  "getStdout env e w = getStd env e ''stdout'' w"

definition getStderr :: "environment \<Rightarrow> CCExperiment \<Rightarrow> world \<Rightarrow> (js_error + string) \<times> world" where
  "getStderr env e w = getStd env e ''stderr'' w"

section \<open>Scenarios\<close>

text \<open>
  The state of a fresh process: the static initialiser \<^verbatim>\<open>availablePorts = []\<close>, nothing
  run and nothing sent.
\<close>

definition world0 :: world where
  "world0 = \<lparr> availablePorts = [], execLog = [], requestLog = [], elapsed = 0, portPolls = 0,
              timers = [], unhandled = [] \<rparr>"

text \<open>
  Two descriptions of how the environment answers the attempts of one command, the first
  of them made when \<open>l\<close> commands have been run: every attempt up to attempt \<open>n\<close>
  (counted from 0) fails and attempt \<open>n\<close> fails with \<open>e\<close>; or attempt \<open>k\<close> is the first
  to succeed, with standard output \<open>out\<close>.
\<close>

fun is_error :: "exec_outcome \<Rightarrow> bool" where
  "is_error (Exec_error err) = True"
| "is_error (Exec_ok out) = False"

definition persistently_fails :: "exec_env \<Rightarrow> nat \<Rightarrow> string \<Rightarrow> nat \<Rightarrow> string \<Rightarrow> bool" where
  "persistently_fails ex l cmd n e =
     ((\<forall>k \<in> {0..<n}. is_error (ex (l + k) cmd)) \<and> ex (l + n) cmd = Exec_error e)"

definition succeeds_at :: "exec_env \<Rightarrow> nat \<Rightarrow> string \<Rightarrow> nat \<Rightarrow> string \<Rightarrow> bool" where
  "succeeds_at ex l cmd k out =
     ((\<forall>j \<in> {0..<k}. is_error (ex (l + j) cmd)) \<and> ex (l + k) cmd = Exec_ok out)"

text \<open>
  A server as the constructor makes it, and the same server once it has leased port 5000
  and started the container \<^verbatim>\<open>c1\<close>.
\<close>

definition server0 :: SSHServer where
  "server0 = new_SSHServer (Some ''/srv/shared'') ''lscr.io/linuxserver/openssh-server:9.3_p2-r0-ls132'' 2222
               ''0123456789abcdef'' ''fedcba9876543210''"

definition server1 :: SSHServer where
  "server1 = server0\<lparr>reservedPort := Some 5000, containerId := Some ''c1''\<rparr>"

text \<open>
  \<open>n\<close> acquisitions in a row, each one a call of \<^verbatim>\<open>fetchAndWaitForPort\<close> with the waiting
  parameters of \<open>s\<close>; the settled values are collected in order.
\<close>

fun acquireAll ::
  "(nat \<Rightarrow> int list) \<Rightarrow> SSHServer \<Rightarrow> nat \<Rightarrow> world \<Rightarrow> ((js_error + int) list \<times> world) option" where
  "acquireAll released s 0 w = Some ([], w)"
| "acquireAll released s (Suc n) w =
     (case fetchAndWaitForPort released s w of
        None \<Rightarrow> None
      | Some (r, w1) \<Rightarrow>
          (case acquireAll released s n w1 of
             None \<Rightarrow> None
           | Some (rs, w2) \<Rightarrow> Some (r # rs, w2)))"

text \<open>
  Nobody else releases a port. A server that has leased port 0 (the pool accepts any
  integer) and started the container \<^verbatim>\<open>c1\<close>, and its \<^verbatim>\<open>stopServer\<close> on an engine where every
  command succeeds. A pool that held other ports before the range is set.
\<close>

definition no_release :: "nat \<Rightarrow> int list" where
  "no_release k = []"

definition server_zero :: SSHServer where
  "server_zero = server0\<lparr>reservedPort := Some 0, containerId := Some ''c1''\<rparr>"

definition stop_zero :: "(js_error + unit) \<times> SSHServer \<times> world" where
  "stop_zero = stopServer (\<lambda>k cmd. Exec_ok ''c1'') server_zero world0"

definition world_used :: world where
  "world_used = world0\<lparr>availablePorts := [7, 7]\<rparr>"

text \<open>
  The same server releasing its port twice.
\<close>

definition release1 :: "SSHServer \<times> world" where
  "release1 = freePort server1 world0"

definition release2 :: "SSHServer \<times> world" where
  "release2 = freePort (fst release1) (snd release1)"

text \<open>
  An agency that answers every request, and a container engine on which every command
  succeeds and prints \<^verbatim>\<open>c1\<close>; the experiment of the example scripts; the variants used
  below change one answer each.
\<close>

definition agency0 :: environment where
  "agency0 =
     \<lparr> exec = (\<lambda>k cmd. Exec_ok ''c1''),
       valid_URL = (\<lambda>u. u \<noteq> ''''),
       submit = (\<lambda>k body. Parsed (Some ''e1'')),
       listBatches = (\<lambda>k path. Parsed [\<lparr>ref_id = Some ''b1'', ref_experimentId = Some ''e1''\<rparr>]),
       getBatch = (\<lambda>k path. Parsed \<lparr>doc_state = Some ''processing'', doc_history = Some []\<rparr>),
       deleteBatch = (\<lambda>k path. Parsed (Some ''cancelled'')),
       getBatchStream = (\<lambda>k path. Response 200 ''done'') \<rparr>"

definition exp0 :: CCExperiment where
  "exp0 = new_CCExperiment ''http://127.0.0.1:8090/'' ''agency_user'' ''agency_password''
            (JStr ''python3'') (JStr ''dprobst/curious_containers:python'') (JNum 256) 0"

definition exp_no_inputs :: CCExperiment where
  "exp_no_inputs = setSSHServer (server0\<lparr>reservedPort := Some 5000\<rparr>) exp0"

definition exp_submitted :: CCExperiment where
  "exp_submitted = exp0\<lparr>experimentId := Some ''e1''\<rparr>"

definition exp_known :: CCExperiment where
  "exp_known = exp0\<lparr>experimentId := Some ''e1'', batchId := Some ''b1''\<rparr>"

definition exp_polling :: CCExperiment where
  "exp_polling = exp0\<lparr>experimentId := Some ''e1'', batchId := Some ''b1'', sshServer := Some server1\<rparr>"

definition agency_404 :: environment where
  "agency_404 = agency0\<lparr>getBatchStream := (\<lambda>k path. Response 404 ''<html>Not Found</html>'')\<rparr>"

text \<open>
  A batch that failed, was registered again and failed again: the history lists the
  entries in the order in which the agency appended them.
\<close>

definition history_two_failures :: "history_entry list" where
  "history_two_failures =
     [\<lparr>entry_state = Some ''registered'', entry_debugInfo = JNull\<rparr>,
      \<lparr>entry_state = Some ''failed'', entry_debugInfo = JStr ''first failure''\<rparr>,
      \<lparr>entry_state = Some ''registered'', entry_debugInfo = JNull\<rparr>,
      \<lparr>entry_state = Some ''failed'', entry_debugInfo = JStr ''second failure''\<rparr>]"

definition agency_failed :: environment where
  "agency_failed =
     agency0\<lparr>getBatch := (\<lambda>k path. Parsed \<lparr>doc_state = Some ''failed'', doc_history = Some history_two_failures\<rparr>)\<rparr>"

text \<open>
  A batch that has succeeded. The container \<^verbatim>\<open>c1\<close> can be stopped and removed once: the
  first two commands succeed, every later one fails. \<open>poll1\<close> and \<open>poll2\<close> are two
  polls in a row.
\<close>

definition agency_succeeded :: environment where
  "agency_succeeded =
     agency0\<lparr>exec := (\<lambda>k cmd. if k < 2 then Exec_ok ''c1'' else Exec_error ''Error: No such container: c1''),
             getBatch := (\<lambda>k path. Parsed \<lparr>doc_state = Some ''succeeded'', doc_history = Some []\<rparr>)\<rparr>"

definition poll1 :: "(js_error + string option) \<times> CCExperiment \<times> world" where
  "poll1 = fetchCurrentStatus agency_succeeded exp_polling world0"

definition poll2 :: "(js_error + string option) \<times> CCExperiment \<times> world" where
  "poll2 = fetchCurrentStatus agency_succeeded (fst (snd poll1)) (snd (snd poll1))"

text \<open>
  An experiment with one input and a server that holds the lease of port 5000; an agency
  whose answer to the submission has no \<^verbatim>\<open>experimentId\<close>, and one that cannot be reached.
\<close>

definition input_msg :: CCInput where
  "input_msg = \<lparr> input_name = ''msg'', input_type = ''string'', input_position = 0,
                 input_value = JStr ''hello'', input_connector = None \<rparr>"

definition exp_submit :: CCExperiment where
  "exp_submit = addInput input_msg (setSSHServer (server0\<lparr>reservedPort := Some 5000\<rparr>) exp0)"

definition agency_no_id :: environment where
  "agency_no_id = agency0\<lparr>submit := (\<lambda>k body. Parsed None)\<rparr>"

definition agency_down :: environment where
  "agency_down = agency0\<lparr>submit := (\<lambda>k body. Request_error ''connect ECONNREFUSED 127.0.0.1:8090'')\<rparr>"

subsection \<open>The specification's reading of the history\<close>

text \<open>
  Follows the words of the specification, not the source: "the most recent history entry
  whose state is failed". The history is the log of the batch, oldest entry first, so the
  most recent entry is the last one.
\<close>

definition mostRecentFailed :: "history_entry list \<Rightarrow> history_entry option" where
  "mostRecentFailed h = find (\<lambda>x. entry_state x = Some ''failed'') (rev h)"

section \<open>Properties\<close>

subsection \<open>Auxiliary facts\<close>

lemma pushRange_upto: "pushRange i l ports = ports @ [i..l]"
proof (induction i l ports rule: pushRange.induct)
  case (1 i l ports)
  show ?case
  proof (cases "i \<le> l")
    case True
    then show ?thesis using 1 by (subst pushRange.simps) (simp add: upto_rec1)
  next
    case False
    then show ?thesis by (subst pushRange.simps) simp
  qed
qed

lemma is_error_iff: "is_error r \<longleftrightarrow> (\<exists>err. r = Exec_error err)"
  by (cases r) simp_all

lemma persistently_fails_first:
  "persistently_fails ex l cmd (Suc d) e \<Longrightarrow> \<exists>e0. ex l cmd = Exec_error e0"
proof -
  assume "persistently_fails ex l cmd (Suc d) e"
  then have "\<forall>k \<in> {0..<Suc d}. is_error (ex (l + k) cmd)"
    unfolding persistently_fails_def by (rule conjunct1)
  moreover have "0 \<in> {0..<Suc d}" by simp
  ultimately have "is_error (ex (l + 0) cmd)" by (rule bspec)
  then show ?thesis by (simp add: is_error_iff)
qed

lemma persistently_fails_Suc:
  assumes "persistently_fails ex l cmd (Suc d) e"
  shows "persistently_fails ex (Suc l) cmd d e"
  unfolding persistently_fails_def
proof (intro conjI ballI)
  fix k assume "k \<in> {0..<d}"
  then have "Suc k \<in> {0..<Suc d}" by simp
  with assms have "is_error (ex (l + Suc k) cmd)"
    unfolding persistently_fails_def by blast
  then show "is_error (ex (Suc l + k) cmd)" by simp
next
  from assms show "ex (Suc l + d) cmd = Exec_error e"
    unfolding persistently_fails_def by simp
qed

lemma succeeds_at_first:
  "succeeds_at ex l cmd (Suc d) out \<Longrightarrow> \<exists>e0. ex l cmd = Exec_error e0"
proof -
  assume "succeeds_at ex l cmd (Suc d) out"
  then have "\<forall>k \<in> {0..<Suc d}. is_error (ex (l + k) cmd)"
    unfolding succeeds_at_def by (rule conjunct1)
  moreover have "0 \<in> {0..<Suc d}" by simp
  ultimately have "is_error (ex (l + 0) cmd)" by (rule bspec)
  then show ?thesis by (simp add: is_error_iff)
qed

lemma succeeds_at_Suc:
  assumes "succeeds_at ex l cmd (Suc d) out"
  shows "succeeds_at ex (Suc l) cmd d out"
  unfolding succeeds_at_def
proof (intro conjI ballI)
  fix k assume "k \<in> {0..<d}"
  then have "Suc k \<in> {0..<Suc d}" by simp
  with assms have "is_error (ex (l + Suc k) cmd)"
    unfolding succeeds_at_def by blast
  then show "is_error (ex (Suc l + k) cmd)" by simp
next
  from assms show "ex (Suc l + d) cmd = Exec_ok out"
    unfolding succeeds_at_def by simp
qed

lemma freePort_without_lease:
  "reservedPort s = None \<Longrightarrow> freePort s w = (s, w)"
  by (simp add: freePort_def)

lemma runner_docker_fails:
  "r \<le> n \<Longrightarrow> persistently_fails ex (length (execLog w)) cmd (n - r) e \<Longrightarrow>
   runner_docker ex cmd n t r w =
     (Inl (Error e), w\<lparr>execLog := execLog w @ replicate (Suc (n - r)) cmd,
                       elapsed := elapsed w + (n - r) * t\<rparr>)"
proof (induction "n - r" arbitrary: r w)
  case 0
  then have "r = n" by simp
  with 0 show ?case
    by (subst runner_docker.simps) (simp add: persistently_fails_def)
next
  case (Suc d)
  then have lt: "r < n" and d: "d = n - Suc r" and nr: "n - r = Suc d" by simp_all
  from Suc.prems(2) obtain e0 where e0: "ex (length (execLog w)) cmd = Exec_error e0"
    unfolding nr using persistently_fails_first by blast
  let ?w = "w\<lparr>execLog := execLog w @ [cmd], elapsed := elapsed w + t\<rparr>"
  have pf: "persistently_fails ex (length (execLog ?w)) cmd (n - Suc r) e"
    using Suc.prems(2) persistently_fails_Suc [of ex _ cmd d e] unfolding nr d [symmetric] by simp
  have "runner_docker ex cmd n t (Suc r) ?w =
     (Inl (Error e), ?w\<lparr>execLog := execLog ?w @ replicate (Suc (n - Suc r)) cmd,
                       elapsed := elapsed ?w + (n - Suc r) * t\<rparr>)"
    using Suc.hyps(1)[OF d _ pf] lt by simp
  then have "runner_docker ex cmd n t (Suc r) ?w =
     (Inl (Error e), w\<lparr>execLog := execLog w @ replicate (Suc (Suc d)) cmd,
                       elapsed := elapsed w + Suc d * t\<rparr>)"
    unfolding d [symmetric] by (simp add: replicate_app_Cons_same)
  then show ?case using e0 lt unfolding nr
    by (subst runner_docker.simps) simp
qed

lemma runner_docker_succeeds:
  "r + k \<le> n \<Longrightarrow> succeeds_at ex (length (execLog w)) cmd k out \<Longrightarrow>
   runner_docker ex cmd n t r w =
     (Inr out, w\<lparr>execLog := execLog w @ replicate (Suc k) cmd,
                  elapsed := elapsed w + k * t\<rparr>)"
proof (induction k arbitrary: r w)
  case 0
  then show ?case
    by (subst runner_docker.simps) (simp add: succeeds_at_def)
next
  case (Suc k)
  from Suc.prems(2) obtain e0 where e0: "ex (length (execLog w)) cmd = Exec_error e0"
    using succeeds_at_first by blast
  let ?w = "w\<lparr>execLog := execLog w @ [cmd], elapsed := elapsed w + t\<rparr>"
  have sa: "succeeds_at ex (length (execLog ?w)) cmd k out"
    using Suc.prems(2) succeeds_at_Suc [of ex _ cmd k out] by simp
  have "runner_docker ex cmd n t (Suc r) ?w =
     (Inr out, ?w\<lparr>execLog := execLog ?w @ replicate (Suc k) cmd,
                  elapsed := elapsed ?w + k * t\<rparr>)"
    using Suc.IH[OF _ sa] Suc.prems(1) by simp
  then show ?case using e0 Suc.prems(1)
    by (subst runner_docker.simps) (simp add: replicate_app_Cons_same)
qed

lemma runner_docker_ports:
  "availablePorts (snd (runner_docker ex cmd n t r w)) = availablePorts w"
proof (induction ex cmd n t r w rule: runner_docker.induct)
  case (1 ex cmd maxRetries timeout retries w)
  show ?case
  proof (cases "ex (length (execLog w)) cmd")
    case (Exec_ok out)
    then show ?thesis by (subst runner_docker.simps) simp
  next
    case (Exec_error err)
    show ?thesis
    proof (cases "retries < maxRetries")
      case True
      with Exec_error 1 show ?thesis by (subst runner_docker.simps) simp
    next
      case False
      with Exec_error show ?thesis by (subst runner_docker.simps) simp
    qed
  qed
qed

lemma runDockerCommand_ports:
  "runDockerCommand ex cmd n t w = (r, w') \<Longrightarrow> availablePorts w' = availablePorts w"
  using runner_docker_ports [of ex cmd n t 0 w] by (simp add: runDockerCommand_def)

lemma runDockerCommand_fails:
  "persistently_fails ex (length (execLog w)) cmd n e \<Longrightarrow>
   runDockerCommand ex cmd n t w =
     (Inl (Error e), w\<lparr>execLog := execLog w @ replicate (Suc n) cmd, elapsed := elapsed w + n * t\<rparr>)"
  unfolding runDockerCommand_def using runner_docker_fails [of 0 n ex w cmd e t] by simp

lemma runDockerCommand_succeeds:
  "k \<le> n \<Longrightarrow> succeeds_at ex (length (execLog w)) cmd k out \<Longrightarrow>
   runDockerCommand ex cmd n t w =
     (Inr out, w\<lparr>execLog := execLog w @ replicate (Suc k) cmd, elapsed := elapsed w + k * t\<rparr>)"
  unfolding runDockerCommand_def using runner_docker_succeeds [of 0 k n ex w cmd out t] by simp

text \<open>
  The polling closure on a pool that is empty and stays empty. The first poll cannot
  reject (no count of retries below 1 exceeds a quotient of two counts) and waits the
  configured interval; every later poll runs without the server, cannot reject and waits
  1 ms. So no poll settles the promise.
\<close>

lemma fetchAndWaitForPort_first_poll:
  "availablePorts w = [] \<Longrightarrow>
   fetchAndWaitForPort released s w =
     runner_port released None (Suc 0)
       (w\<lparr>portPolls := Suc (portPolls w),
          elapsed := elapsed w + timer_delay (reservePortTimeout s),
          availablePorts := released 0\<rparr>)"
  unfolding fetchAndWaitForPort_def
  by (subst runner_port.simps) (simp add: shift_def exceeds_quotient_def)

lemma runner_port_later_poll:
  "availablePorts w = [] \<Longrightarrow>
   runner_port released None retries w =
     runner_port released None (Suc retries)
       (w\<lparr>portPolls := Suc (portPolls w), elapsed := elapsed w + 1,
          availablePorts := released retries\<rparr>)"
  by (subst runner_port.simps) (simp add: shift_def)

lemma runner_port_timer_this:
  assumes "runner_port released th retries w = Some y"
  shows "\<not> (th = None \<and> availablePorts w = [] \<and> (\<forall>k. released k = []))"
proof (rule runner_port.raw_induct [OF _ assms])
  fix runner :: "(nat \<Rightarrow> int list) \<Rightarrow> SSHServer option \<Rightarrow> nat \<Rightarrow> world \<Rightarrow> ((js_error + int) \<times> world) option"
  fix rel th r v and z :: "(js_error + int) \<times> world"
  assume IH: "\<And>rel th r v z. runner rel th r v = Some z \<Longrightarrow>
                 \<not> (th = None \<and> availablePorts v = [] \<and> (\<forall>k. rel k = []))"
  assume step: "(case shift v of
      (None, w1) \<Rightarrow>
        if case th of None \<Rightarrow> False
           | Some s \<Rightarrow> exceeds_quotient r (reservePortMaxTime s) (reservePortTimeout s)
        then Some (Inl Undefined_reason, w1)
        else runner rel None (Suc r)
              (w1\<lparr>elapsed := elapsed w1 + (case th of None \<Rightarrow> 1 | Some s \<Rightarrow> timer_delay (reservePortTimeout s)),
                    availablePorts := availablePorts w1 @ rel r\<rparr>)
      | (Some p, w1) \<Rightarrow> Some (Inr p, w1)) = Some z"
  show "\<not> (th = None \<and> availablePorts v = [] \<and> (\<forall>k. rel k = []))"
  proof
    assume a: "th = None \<and> availablePorts v = [] \<and> (\<forall>k. rel k = [])"
    let ?v = "v\<lparr>portPolls := Suc (portPolls v), elapsed := elapsed v + 1\<rparr>"
    from a step have "runner rel None (Suc r) ?v = Some z"
      by (simp add: shift_def)
    from IH [OF this] a show False by simp
  qed
qed

lemma runner_port_never:
  "availablePorts w = [] \<Longrightarrow> \<forall>k. released k = [] \<Longrightarrow> runner_port released None retries w = None"
  using runner_port_timer_this [of released None retries w]
  by (cases "runner_port released None retries w") auto

lemma fetchAndWaitForPort_never:
  assumes "availablePorts w = []" and "\<forall>k. released k = []"
  shows "fetchAndWaitForPort released s w = None"
proof -
  let ?w = "w\<lparr>portPolls := Suc (portPolls w),
              elapsed := elapsed w + timer_delay (reservePortTimeout s),
              availablePorts := released 0\<rparr>"
  have "availablePorts ?w = []" using assms(2) by simp
  then have "runner_port released None (Suc 0) ?w = None"
    using assms(2) by (rule runner_port_never)
  then show ?thesis
    by (simp only: fetchAndWaitForPort_first_poll [OF assms(1)])
qed

lemma fetchAndWaitForPort_head:
  "availablePorts w = p # ps \<Longrightarrow>
   fetchAndWaitForPort released s w =
     Some (Inr p, w\<lparr>availablePorts := ps, portPolls := Suc (portPolls w)\<rparr>)"
  unfolding fetchAndWaitForPort_def
  by (subst runner_port.simps) (simp add: shift_def)

lemma acquireAll_pool:
  "availablePorts w = ps \<Longrightarrow>
   map_option fst (acquireAll released s (length ps) w) = Some (map Inr ps)"
proof (induction ps arbitrary: w)
  case Nil
  then show ?case by simp
next
  case (Cons p ps)
  let ?w = "w\<lparr>availablePorts := ps, portPolls := Suc (portPolls w)\<rparr>"
  have "map_option fst (acquireAll released s (length ps) ?w) = Some (map Inr ps)"
    by (rule Cons.IH) simp
  then show ?case
    using fetchAndWaitForPort_head [OF Cons.prems, of released s]
    by (auto split: option.splits)
qed

lemma acquireAll_exhausted:
  assumes "\<forall>k. released k = []"
  shows "availablePorts w = ps \<Longrightarrow> acquireAll released s (Suc (length ps)) w = None"
proof (induction ps arbitrary: w)
  case Nil
  then show ?case
    using fetchAndWaitForPort_never [OF _ assms, of w s] by simp
next
  case (Cons p ps)
  let ?w = "w\<lparr>availablePorts := ps, portPolls := Suc (portPolls w)\<rparr>"
  have "acquireAll released s (Suc (length ps)) ?w = None"
    by (rule Cons.IH) simp
  then show ?case
    using fetchAndWaitForPort_head [OF Cons.prems, of released s]
    by simp
qed

text \<open>
  \<^verbatim>\<open>setPortRange\<close> by itself: for \<open>firstPort \<le> lastPort\<close> the pool becomes the integers
  from \<open>firstPort\<close> to \<open>lastPort\<close> in ascending order, whatever it held before; that many
  acquisitions lease them in this order; for \<open>firstPort > lastPort\<close> nothing changes.
\<close>

lemma setPortRange_pool:
  "firstPort \<le> lastPort \<Longrightarrow>
     setPortRange firstPort lastPort w = w\<lparr>availablePorts := [firstPort..lastPort]\<rparr>"
  "firstPort \<le> lastPort \<Longrightarrow>
     length (availablePorts (setPortRange firstPort lastPort w)) = nat (lastPort - firstPort + 1)"
  "firstPort \<le> lastPort \<Longrightarrow>
     map_option fst (acquireAll released s (nat (lastPort - firstPort + 1)) (setPortRange firstPort lastPort w))
       = Some (map Inr [firstPort..lastPort])"
  "firstPort > lastPort \<Longrightarrow> setPortRange firstPort lastPort w = w"
proof -
  show eq: "setPortRange firstPort lastPort w = w\<lparr>availablePorts := [firstPort..lastPort]\<rparr>"
    if "firstPort \<le> lastPort"
    using that by (simp add: setPortRange_def pushRange_upto)
  show len: "length (availablePorts (setPortRange firstPort lastPort w)) = nat (lastPort - firstPort + 1)"
    if "firstPort \<le> lastPort"
    using that by (simp add: eq)
  show "map_option fst (acquireAll released s (nat (lastPort - firstPort + 1)) (setPortRange firstPort lastPort w))
       = Some (map Inr [firstPort..lastPort])"
    if "firstPort \<le> lastPort"
    using that acquireAll_pool [of "setPortRange firstPort lastPort w" "[firstPort..lastPort]" released s]
    by (simp add: eq)
  show "setPortRange firstPort lastPort w = w" if "firstPort > lastPort"
    using that by (simp add: setPortRange_def)
qed

lemma stopServer_error_path:
  assumes l: "isl (fst (stopServer ex s w))"
  shows "availablePorts (snd (snd (stopServer ex s w))) = availablePorts w
        \<and> fst (snd (stopServer ex s w)) = s"
proof -
  obtain r1 w1 where r1: "runDockerCommand ex (''docker stop '' @ js_str (containerId s)) (maxStopRetries s) (stopTimeout s) w = (r1, w1)"
    by (cases "runDockerCommand ex (''docker stop '' @ js_str (containerId s)) (maxStopRetries s) (stopTimeout s) w")
  obtain r2 w2 where r2: "runDockerCommand ex (''docker rm '' @ js_str (containerId s)) (maxStopRetries s) (stopTimeout s) w1 = (r2, w2)"
    by (cases "runDockerCommand ex (''docker rm '' @ js_str (containerId s)) (maxStopRetries s) (stopTimeout s) w1")
  from runDockerCommand_ports [OF r1] runDockerCommand_ports [OF r2] l r1 r2
  show ?thesis
    by (cases r1; cases r2) (auto simp: stopServer_def split: prod.splits)
qed

lemma scanHistory_find:
  "scanHistory h d = (case find (\<lambda>x. entry_state x = Some ''failed'') h of
                        Some x \<Rightarrow> entry_debugInfo x | None \<Rightarrow> d)"
  by (induction h) simp_all

lemma stopAttached_fields:
  "stopAttached ex e w = (e', w') \<Longrightarrow>
     debugInfo e' = debugInfo e \<and> currentStatus e' = currentStatus e \<and> batchId e' = batchId e"
  by (auto simp: stopAttached_def split: option.splits prod.splits sum.splits)

lemma requestStatus_failed:
  assumes "valid_URL env (ccAgencyUrl e)"
    and "getBatch env (length (requestLog w)) (''batches/'' @ js_str (batchId e)) = Parsed doc"
    and "doc_state doc = Some ''failed''" and "doc_history doc = Some h"
  shows "fst (requestStatus env e w) = Inr (Some ''failed'')
         \<and> debugInfo (fst (snd (requestStatus env e w))) = scanHistory h (debugInfo e)"
proof -
  let ?e2 = "e\<lparr>currentStatus := Some ''failed'', debugInfo := scanHistory h (debugInfo e)\<rparr>"
  let ?w1 = "clearTimeoutTimer ?e2 (send ''GET'' (''batches/'' @ js_str (batchId e)) w)"
  obtain e3 w2 where st: "stopAttached (exec env) ?e2 ?w1 = (e3, w2)"
    by (cases "stopAttached (exec env) ?e2 ?w1")
  have "requestStatus env e w = (Inr (Some ''failed''), e3, w2)"
    using assms st by (simp add: requestStatus_def Let_def)
  moreover have "debugInfo e3 = scanHistory h (debugInfo e)"
    using stopAttached_fields [OF st] by simp
  ultimately show ?thesis by simp
qed

text \<open>
  The cancellation path has the same shape: every \<^verbatim>\<open>cancelExperiment\<close> call whose
  response parses runs \<^verbatim>\<open>stopServer\<close> once on the attached server.
\<close>

lemma cancelExperiment_stops_per_call:
  assumes "valid_URL env (ccAgencyUrl e)"
    and "if falsy (batchId e) then getBatchId env e w = (Inr b, w1) else b = batchId e \<and> w1 = w"
    and "deleteBatch env (length (requestLog w1)) (''batches/'' @ js_str b) = Parsed st"
    and "sshServer e = Some s"
    and "stopServer (exec env) s (send ''DELETE'' (''batches/'' @ js_str b) (clearTimeoutTimer e w1)) = (r, s', w')"
  shows "cancelExperiment env e w =
           (Inr (st = Some ''cancelled''), e\<lparr>batchId := b, sshServer := Some s'\<rparr>,
            w'\<lparr>unhandled := unhandled w' @ (case r of Inl err \<Rightarrow> [err] | Inr u \<Rightarrow> [])\<rparr>)"
proof -
  have f: "cancelExperiment env e w = requestCancel env (e\<lparr>batchId := b\<rparr>) w1"
    using assms(2) by (cases "falsy (batchId e)") (simp_all add: cancelExperiment_def)
  have l: "length (requestLog (clearTimeoutTimer e w1)) = length (requestLog w1)"
    by (simp add: clearTimeoutTimer_def split: option.splits)
  show ?thesis
    unfolding f using assms(1,3,4,5) l
    by (cases r) (simp_all add: requestCancel_def Let_def stopAttached_def clearTimeoutTimer_def
          split: option.splits)
qed

lemma poll1_eq:
  "poll1 = (Inr (Some ''succeeded''),
            exp_polling\<lparr>currentStatus := Some ''succeeded'',
                         sshServer := Some (server1\<lparr>reservePort_shadowed := True\<rparr>)\<rparr>,
            world0\<lparr>requestLog := [(''GET'', ''batches/b1'')],
                   execLog := [''docker stop c1'', ''docker rm c1''],
                   availablePorts := [5000]\<rparr>)"
  by (simp add: poll1_def fetchCurrentStatus_def requestStatus_def exp_polling_def exp0_def
        new_CCExperiment_def agency_succeeded_def agency0_def world0_def stopAttached_def
        clearTimeoutTimer_def send_def Let_def stopServer_def runDockerCommand_def
        runner_docker.simps freePort_def server1_def server0_def new_SSHServer_def)

subsection \<open>The claims\<close>

text \<open>
  C1 (as the code has it). There is no once-only guard on the teardown. A
  \<^verbatim>\<open>fetchCurrentStatus\<close> call that observes \<^verbatim>\<open>succeeded\<close> on an experiment with an attached
  server runs \<^verbatim>\<open>stopServer\<close> exactly once, whatever happened before the call: the
  experiment and the world it leaves are those of one \<^verbatim>\<open>stopServer\<close> on the attached
  server (a rejection of it stays unhandled). A call that observes a state other than
  \<^verbatim>\<open>succeeded\<close> and \<^verbatim>\<open>failed\<close> runs no command and only records the state. \<open>b\<close> is the
  batch identifier of the request, looked up first when the experiment has none.
\<close>

theorem fetchCurrentStatus_stops_per_call:
  assumes "valid_URL env (ccAgencyUrl e)"
    and "if falsy (batchId e) then getBatchId env e w = (Inr b, w1) else b = batchId e \<and> w1 = w"
    and "getBatch env (length (requestLog w1)) (''batches/'' @ js_str b) = Parsed doc"
    and "sshServer e = Some s"
    and "stopServer (exec env) s (clearTimeoutTimer e (send ''GET'' (''batches/'' @ js_str b) w1)) = (r, s', w')"
  shows "(doc_state doc = Some ''succeeded'' \<longrightarrow>
            fetchCurrentStatus env e w =
              (Inr (Some ''succeeded''),
               e\<lparr>batchId := b, currentStatus := Some ''succeeded'', sshServer := Some s'\<rparr>,
               w'\<lparr>unhandled := unhandled w' @ (case r of Inl err \<Rightarrow> [err] | Inr u \<Rightarrow> [])\<rparr>))
         \<and> (doc_state doc \<noteq> Some ''succeeded'' \<and> doc_state doc \<noteq> Some ''failed'' \<longrightarrow>
            fetchCurrentStatus env e w =
              (Inr (doc_state doc), e\<lparr>batchId := b, currentStatus := doc_state doc\<rparr>,
               send ''GET'' (''batches/'' @ js_str b) w1))"
proof -
  have f: "fetchCurrentStatus env e w = requestStatus env (e\<lparr>batchId := b\<rparr>) w1"
    using assms(2) by (cases "falsy (batchId e)") (simp_all add: fetchCurrentStatus_def)
  show ?thesis
  proof (intro conjI impI)
    assume "doc_state doc = Some ''succeeded''"
    with assms(1,3,4,5) show "fetchCurrentStatus env e w =
              (Inr (Some ''succeeded''),
               e\<lparr>batchId := b, currentStatus := Some ''succeeded'', sshServer := Some s'\<rparr>,
               w'\<lparr>unhandled := unhandled w' @ (case r of Inl err \<Rightarrow> [err] | Inr u \<Rightarrow> [])\<rparr>)"
      unfolding f
      by (cases r) (simp_all add: requestStatus_def Let_def stopAttached_def clearTimeoutTimer_def)
  next
    assume "doc_state doc \<noteq> Some ''succeeded'' \<and> doc_state doc \<noteq> Some ''failed''"
    with assms(1,3) show "fetchCurrentStatus env e w =
              (Inr (doc_state doc), e\<lparr>batchId := b, currentStatus := doc_state doc\<rparr>,
               send ''GET'' (''batches/'' @ js_str b) w1)"
      unfolding f by (simp add: requestStatus_def Let_def)
  qed
qed

theorem fetchCurrentStatus_stops_per_call_witness:
  "valid_URL agency_succeeded (ccAgencyUrl exp_polling)
   \<and> (if falsy (batchId exp_polling)
       then getBatchId agency_succeeded exp_polling world0 = (Inr (Some ''b1''), world0)
       else Some ''b1'' = batchId exp_polling \<and> world0 = world0)
   \<and> getBatch agency_succeeded (length (requestLog world0)) (''batches/'' @ js_str (Some ''b1''))
       = Parsed \<lparr>doc_state = Some ''succeeded'', doc_history = Some []\<rparr>
   \<and> sshServer exp_polling = Some server1
   \<and> stopServer (exec agency_succeeded) server1
        (clearTimeoutTimer exp_polling (send ''GET'' (''batches/'' @ js_str (Some ''b1'')) world0))
       = (Inr (), server1\<lparr>reservePort_shadowed := True\<rparr>,
          world0\<lparr>requestLog := [(''GET'', ''batches/b1'')],
                 execLog := [''docker stop c1'', ''docker rm c1''],
                 availablePorts := [5000]\<rparr>)
   \<and> fetchCurrentStatus agency_succeeded exp_polling world0 =
       (Inr (Some ''succeeded''),
        exp_polling\<lparr>currentStatus := Some ''succeeded'',
                     sshServer := Some (server1\<lparr>reservePort_shadowed := True\<rparr>)\<rparr>,
        world0\<lparr>requestLog := [(''GET'', ''batches/b1'')],
               execLog := [''docker stop c1'', ''docker rm c1''],
               availablePorts := [5000]\<rparr>)
   \<and> getBatch agency0 (length (requestLog world0)) (''batches/'' @ js_str (Some ''b1''))
       = Parsed \<lparr>doc_state = Some ''processing'', doc_history = Some []\<rparr>
   \<and> fetchCurrentStatus agency0 exp_polling world0 =
       (Inr (Some ''processing''), exp_polling\<lparr>currentStatus := Some ''processing''\<rparr>,
        world0\<lparr>requestLog := [(''GET'', ''batches/b1'')]\<rparr>)"
proof -
  have k: "batchId exp_polling = Some ''b1''"
    by (simp add: exp_polling_def)
  have a: "if falsy (batchId exp_polling)
       then getBatchId agency_succeeded exp_polling world0 = (Inr (Some ''b1''), world0)
       else Some ''b1'' = batchId exp_polling \<and> world0 = world0"
    and a0: "if falsy (batchId exp_polling)
       then getBatchId agency0 exp_polling world0 = (Inr (Some ''b1''), world0)
       else Some ''b1'' = batchId exp_polling \<and> world0 = world0"
    and b: "valid_URL agency_succeeded (ccAgencyUrl exp_polling)"
    and b0: "valid_URL agency0 (ccAgencyUrl exp_polling)"
    and d: "sshServer exp_polling = Some server1"
    by (simp_all add: exp_polling_def exp0_def new_CCExperiment_def agency_succeeded_def agency0_def)
  have c: "getBatch agency_succeeded (length (requestLog world0)) (''batches/'' @ js_str (Some ''b1''))
       = Parsed \<lparr>doc_state = Some ''succeeded'', doc_history = Some []\<rparr>"
    and c0: "getBatch agency0 (length (requestLog world0)) (''batches/'' @ js_str (Some ''b1''))
       = Parsed \<lparr>doc_state = Some ''processing'', doc_history = Some []\<rparr>"
    by (simp_all add: agency_succeeded_def agency0_def)
  have s: "stopServer (exec agency_succeeded) server1
        (clearTimeoutTimer exp_polling (send ''GET'' (''batches/'' @ js_str (Some ''b1'')) world0))
       = (Inr (), server1\<lparr>reservePort_shadowed := True\<rparr>,
          world0\<lparr>requestLog := [(''GET'', ''batches/b1'')],
                 execLog := [''docker stop c1'', ''docker rm c1''],
                 availablePorts := [5000]\<rparr>)"
    by (simp add: exp_polling_def exp0_def new_CCExperiment_def agency_succeeded_def agency0_def
          world0_def clearTimeoutTimer_def send_def stopServer_def runDockerCommand_def
          runner_docker.simps freePort_def server1_def server0_def new_SSHServer_def)
  obtain r0 s0 w0 where s0: "stopServer (exec agency0) server1
        (clearTimeoutTimer exp_polling (send ''GET'' (''batches/'' @ js_str (Some ''b1'')) world0))
       = (r0, s0, w0)"
    using prod_cases3 by blast
  have e: "exp_polling\<lparr>batchId := Some ''b1''\<rparr> = exp_polling"
    by (simp add: exp_polling_def)
  have p: "fetchCurrentStatus agency_succeeded exp_polling world0 =
       (Inr (Some ''succeeded''),
        exp_polling\<lparr>currentStatus := Some ''succeeded'',
                     sshServer := Some (server1\<lparr>reservePort_shadowed := True\<rparr>)\<rparr>,
        world0\<lparr>requestLog := [(''GET'', ''batches/b1'')],
               execLog := [''docker stop c1'', ''docker rm c1''],
               availablePorts := [5000]\<rparr>)"
    using fetchCurrentStatus_stops_per_call [OF b a c d s] by (simp add: world0_def e)
  have q: "fetchCurrentStatus agency0 exp_polling world0 =
       (Inr (Some ''processing''), exp_polling\<lparr>currentStatus := Some ''processing''\<rparr>,
        world0\<lparr>requestLog := [(''GET'', ''batches/b1'')]\<rparr>)"
    using fetchCurrentStatus_stops_per_call [OF b0 a0 c0 d s0]
    by (simp add: send_def world0_def e)
  from a b c d s p c0 q show ?thesis by blast
qed

text \<open>
  C1 as stated fails: a second poll that observes \<^verbatim>\<open>succeeded\<close> stops the server again.
  After the first poll the container has been stopped and removed by one
  \<^verbatim>\<open>docker stop\<close> and one \<^verbatim>\<open>docker rm\<close>; the second poll calls \<^verbatim>\<open>stopServer\<close> once more,
  which tries \<^verbatim>\<open>docker stop\<close> four times on the removed container and rejects, unhandled.
\<close>

theorem fetchCurrentStatus_second_stop_counterexample:
  "fst poll1 = Inr (Some ''succeeded'')
   \<and> execLog (snd (snd poll1)) = [''docker stop c1'', ''docker rm c1'']
   \<and> fst poll2 = Inr (Some ''succeeded'')
   \<and> execLog (snd (snd poll2)) =
       [''docker stop c1'', ''docker rm c1'',
        ''docker stop c1'', ''docker stop c1'', ''docker stop c1'', ''docker stop c1'']
   \<and> unhandled (snd (snd poll2)) = [Error ''Failed to remove server: Error: No such container: c1'']"
  unfolding poll2_def poll1_eq
  by (simp add: fetchCurrentStatus_def requestStatus_def exp_polling_def exp0_def
        new_CCExperiment_def agency_succeeded_def agency0_def world0_def stopAttached_def
        clearTimeoutTimer_def send_def Let_def stopServer_def runDockerCommand_def
        runner_docker.simps freePort_def server1_def server0_def new_SSHServer_def)

text \<open>
  C2. The code at the failing input. The server holds port 5000 and \<^verbatim>\<open>docker run\<close>
  succeeds. When the answer of the agency has no \<^verbatim>\<open>experimentId\<close>, \<^verbatim>\<open>startExperiment\<close> rejects
  with \<^verbatim>\<open>Experiment ID not returned in the response.\<close> and runs no further command: the
  container \<^verbatim>\<open>c1\<close> keeps running and port 5000 is not back in the pool. When the agency
  cannot be reached, the same experiment stops and removes the container and returns
  the port.
\<close>

theorem startExperiment_missing_id_keeps_server:
  "fst (startExperiment agency_no_id exp_submit world0) =
     Inl (Error ''Experiment ID not returned in the response.'')
   \<and> execLog (snd (snd (startExperiment agency_no_id exp_submit world0))) =
       [startCommand (server0\<lparr>reservedPort := Some 5000\<rparr>) 5000]
   \<and> availablePorts (snd (snd (startExperiment agency_no_id exp_submit world0))) = []
   \<and> map_option containerId (sshServer (fst (snd (startExperiment agency_no_id exp_submit world0)))) =
       Some (Some ''c1'')
   \<and> fst (startExperiment agency_down exp_submit world0) =
       Inl (Error ''HTTP request error: connect ECONNREFUSED 127.0.0.1:8090'')
   \<and> execLog (snd (snd (startExperiment agency_down exp_submit world0))) =
       [startCommand (server0\<lparr>reservedPort := Some 5000\<rparr>) 5000, ''docker stop c1'', ''docker rm c1'']
   \<and> availablePorts (snd (snd (startExperiment agency_down exp_submit world0))) = [5000]"
  by (simp add: startExperiment_def createRED_def getREDInputs_def getREDOutputs_def getREDInput_def
        getREDCli_def getREDContainer_def getREDExecution_def getREDCliInput_def
        exp_submit_def addInput_def setSSHServer_def input_msg_def exp0_def new_CCExperiment_def
        agency_no_id_def agency_down_def agency0_def world0_def server0_def new_SSHServer_def
        startServer_def startCommand_def runDockerCommand_def runner_docker.simps
        stopAttached_def stopServer_def freePort_def send_def trim_def is_space_def Let_def)

text \<open>
  C3. \<^verbatim>\<open>freePort\<close> is not safe against a second release. The server holds the lease
  of port 5000 and the pool is empty. The first \<^verbatim>\<open>freePort\<close> returns the port; it clears the
  property \<^verbatim>\<open>reservePort\<close>, not \<open>reservedPort\<close>, so the second \<^verbatim>\<open>freePort\<close> passes the
  guard again and pushes 5000 a second time. The pool then holds the port twice, and the
  next two acquisitions both lease 5000.
\<close>

theorem freePort_double_release:
  "availablePorts (snd release1) = [5000]
   \<and> reservedPort (fst release1) = Some 5000
   \<and> availablePorts (snd release2) = [5000, 5000]
   \<and> fst (shift (snd release2)) = Some 5000
   \<and> fst (shift (snd (shift (snd release2)))) = Some 5000"
  by (simp add: release2_def release1_def freePort_def shift_def world0_def server1_def server0_def
        new_SSHServer_def)

text \<open>
  C4. The code at the failing input: a server as the constructor makes it (poll interval
  30000 ms, maximum wait 3600000 ms) acquires from a pool that is empty and stays
  empty. The bound is read from \<^verbatim>\<open>this\<close>, which is the server at the first poll only; the
  polls started by the timer compare with \<^verbatim>\<open>NaN\<close> and wait 1 ms. The acquisition is never
  rejected: the promises of \<^verbatim>\<open>fetchAndWaitForPort\<close> and of \<^verbatim>\<open>reservePort\<close> never settle.
\<close>

theorem fetchAndWaitForPort_never_rejects:
  "availablePorts world0 = []
   \<and> reservePortTimeout server0 = 30000 \<and> reservePortMaxTime server0 = 3600000
   \<and> fetchAndWaitForPort no_release server0 world0 = None
   \<and> reservePort no_release server0 world0 = None"
proof -
  have a: "availablePorts world0 = []" by (simp add: world0_def)
  have b: "\<forall>k. no_release k = []" by (simp add: no_release_def)
  have f: "fetchAndWaitForPort no_release server0 world0 = None"
    by (rule fetchAndWaitForPort_never [OF a b])
  then have "reservePort no_release server0 world0 = None"
    by (simp add: reservePort_def server0_def new_SSHServer_def)
  with a f show ?thesis by (simp add: server0_def new_SSHServer_def)
qed

text \<open>
  C5 (as the code has it). \<^verbatim>\<open>stopServer\<close> runs \<^verbatim>\<open>docker stop\<close> and then \<^verbatim>\<open>docker rm\<close> on the
  recorded container identifier. If the stop command fails at all its attempts, or the
  stop command succeeds and the removal fails at all its attempts, the call rejects with
  \<^verbatim>\<open>Failed to remove server: ...\<close>, the server object is unchanged and the pool is
  untouched. If both succeed, the leased port, when it is not 0, is appended to the pool.
  Whenever the call rejects, the pool is the one before the call.
\<close>

theorem stopServer_spec:
  "(persistently_fails ex (length (execLog w)) (''docker stop '' @ js_str (containerId s)) (maxStopRetries s) e \<longrightarrow>
      stopServer ex s w =
        (Inl (Error (''Failed to remove server: '' @ e)), s,
         w\<lparr>execLog := execLog w @ replicate (maxStopRetries s + 1) (''docker stop '' @ js_str (containerId s)),
           elapsed := elapsed w + maxStopRetries s * stopTimeout s\<rparr>))
   \<and> (j \<le> maxStopRetries s
        \<and> succeeds_at ex (length (execLog w)) (''docker stop '' @ js_str (containerId s)) j out
        \<and> persistently_fails ex (length (execLog w) + j + 1) (''docker rm '' @ js_str (containerId s)) (maxStopRetries s) e \<longrightarrow>
      stopServer ex s w =
        (Inl (Error (''Failed to remove server: '' @ e)), s,
         w\<lparr>execLog := execLog w @ replicate (j + 1) (''docker stop '' @ js_str (containerId s))
                                @ replicate (maxStopRetries s + 1) (''docker rm '' @ js_str (containerId s)),
           elapsed := elapsed w + j * stopTimeout s + maxStopRetries s * stopTimeout s\<rparr>))
   \<and> (j \<le> maxStopRetries s
        \<and> succeeds_at ex (length (execLog w)) (''docker stop '' @ js_str (containerId s)) j out
        \<and> k \<le> maxStopRetries s
        \<and> succeeds_at ex (length (execLog w) + j + 1) (''docker rm '' @ js_str (containerId s)) k out'
        \<and> reservedPort s = Some p \<and> p \<noteq> 0 \<longrightarrow>
      stopServer ex s w =
        (Inr (), s\<lparr>reservePort_shadowed := True\<rparr>,
         w\<lparr>execLog := execLog w @ replicate (j + 1) (''docker stop '' @ js_str (containerId s))
                                @ replicate (k + 1) (''docker rm '' @ js_str (containerId s)),
           elapsed := elapsed w + j * stopTimeout s + k * stopTimeout s,
           availablePorts := availablePorts w @ [p]\<rparr>))
   \<and> (isl (fst (stopServer ex s w)) \<longrightarrow>
        availablePorts (snd (snd (stopServer ex s w))) = availablePorts w
        \<and> fst (snd (stopServer ex s w)) = s)"
proof (intro conjI impI)
  assume "persistently_fails ex (length (execLog w)) (''docker stop '' @ js_str (containerId s)) (maxStopRetries s) e"
  from runDockerCommand_fails [OF this, of "stopTimeout s"]
  show "stopServer ex s w =
        (Inl (Error (''Failed to remove server: '' @ e)), s,
         w\<lparr>execLog := execLog w @ replicate (maxStopRetries s + 1) (''docker stop '' @ js_str (containerId s)),
           elapsed := elapsed w + maxStopRetries s * stopTimeout s\<rparr>)"
    by (simp add: stopServer_def)
next
  assume a: "j \<le> maxStopRetries s
        \<and> succeeds_at ex (length (execLog w)) (''docker stop '' @ js_str (containerId s)) j out
        \<and> persistently_fails ex (length (execLog w) + j + 1) (''docker rm '' @ js_str (containerId s)) (maxStopRetries s) e"
  let ?w1 = "w\<lparr>execLog := execLog w @ replicate (Suc j) (''docker stop '' @ js_str (containerId s)),
                elapsed := elapsed w + j * stopTimeout s\<rparr>"
  from a have s1: "runDockerCommand ex (''docker stop '' @ js_str (containerId s)) (maxStopRetries s) (stopTimeout s) w
                    = (Inr out, ?w1)"
    using runDockerCommand_succeeds by blast
  from a have "persistently_fails ex (length (execLog ?w1)) (''docker rm '' @ js_str (containerId s)) (maxStopRetries s) e"
    by simp
  from runDockerCommand_fails [OF this, of "stopTimeout s"] s1
  show "stopServer ex s w =
        (Inl (Error (''Failed to remove server: '' @ e)), s,
         w\<lparr>execLog := execLog w @ replicate (j + 1) (''docker stop '' @ js_str (containerId s))
                                @ replicate (maxStopRetries s + 1) (''docker rm '' @ js_str (containerId s)),
           elapsed := elapsed w + j * stopTimeout s + maxStopRetries s * stopTimeout s\<rparr>)"
    by (simp add: stopServer_def)
next
  assume a: "j \<le> maxStopRetries s
        \<and> succeeds_at ex (length (execLog w)) (''docker stop '' @ js_str (containerId s)) j out
        \<and> k \<le> maxStopRetries s
        \<and> succeeds_at ex (length (execLog w) + j + 1) (''docker rm '' @ js_str (containerId s)) k out'
        \<and> reservedPort s = Some p \<and> p \<noteq> 0"
  let ?w1 = "w\<lparr>execLog := execLog w @ replicate (Suc j) (''docker stop '' @ js_str (containerId s)),
                elapsed := elapsed w + j * stopTimeout s\<rparr>"
  from a have s1: "runDockerCommand ex (''docker stop '' @ js_str (containerId s)) (maxStopRetries s) (stopTimeout s) w
                    = (Inr out, ?w1)"
    using runDockerCommand_succeeds by blast
  from a have k: "k \<le> maxStopRetries s"
    and "succeeds_at ex (length (execLog ?w1)) (''docker rm '' @ js_str (containerId s)) k out'"
    by simp_all
  from runDockerCommand_succeeds [OF this, of "stopTimeout s"] s1 a
  show "stopServer ex s w =
        (Inr (), s\<lparr>reservePort_shadowed := True\<rparr>,
         w\<lparr>execLog := execLog w @ replicate (j + 1) (''docker stop '' @ js_str (containerId s))
                                @ replicate (k + 1) (''docker rm '' @ js_str (containerId s)),
           elapsed := elapsed w + j * stopTimeout s + k * stopTimeout s,
           availablePorts := availablePorts w @ [p]\<rparr>)"
    by (simp add: stopServer_def freePort_def)
next
  assume "isl (fst (stopServer ex s w))"
  then show "availablePorts (snd (snd (stopServer ex s w))) = availablePorts w"
    using stopServer_error_path by blast
next
  assume "isl (fst (stopServer ex s w))"
  then show "fst (snd (stopServer ex s w)) = s"
    using stopServer_error_path by blast
qed

theorem stopServer_spec_witness:
  "persistently_fails (\<lambda>k c. Exec_error ''boom'') (length (execLog world0)) (''docker stop '' @ js_str (containerId server1)) (maxStopRetries server1) ''boom''
   \<and> stopServer (\<lambda>k c. Exec_error ''boom'') server1 world0 =
        (Inl (Error ''Failed to remove server: boom''), server1,
         world0\<lparr>execLog := [''docker stop c1'', ''docker stop c1'', ''docker stop c1'', ''docker stop c1''],
                elapsed := 30000\<rparr>)
   \<and> isl (fst (stopServer (\<lambda>k c. Exec_error ''boom'') server1 world0))
   \<and> availablePorts (snd (snd (stopServer (\<lambda>k c. Exec_error ''boom'') server1 world0))) = availablePorts world0
   \<and> (0 \<le> maxStopRetries server1
      \<and> succeeds_at (\<lambda>k c. if k < 1 then Exec_ok ''c1'' else Exec_error ''boom'') (length (execLog world0)) (''docker stop '' @ js_str (containerId server1)) 0 ''c1''
      \<and> persistently_fails (\<lambda>k c. if k < 1 then Exec_ok ''c1'' else Exec_error ''boom'') (length (execLog world0) + 0 + 1) (''docker rm '' @ js_str (containerId server1)) (maxStopRetries server1) ''boom'')
   \<and> stopServer (\<lambda>k c. if k < 1 then Exec_ok ''c1'' else Exec_error ''boom'') server1 world0 =
        (Inl (Error ''Failed to remove server: boom''), server1,
         world0\<lparr>execLog := [''docker stop c1'', ''docker rm c1'', ''docker rm c1'', ''docker rm c1'', ''docker rm c1''],
                elapsed := 30000\<rparr>)
   \<and> (0 \<le> maxStopRetries server1
      \<and> succeeds_at (\<lambda>k c. Exec_ok ''c1'') (length (execLog world0)) (''docker stop '' @ js_str (containerId server1)) 0 ''c1''
      \<and> 0 \<le> maxStopRetries server1
      \<and> succeeds_at (\<lambda>k c. Exec_ok ''c1'') (length (execLog world0) + 0 + 1) (''docker rm '' @ js_str (containerId server1)) 0 ''c1''
      \<and> reservedPort server1 = Some 5000 \<and> (5000::int) \<noteq> 0)
   \<and> stopServer (\<lambda>k c. Exec_ok ''c1'') server1 world0 =
        (Inr (), server1\<lparr>reservePort_shadowed := True\<rparr>,
         world0\<lparr>execLog := [''docker stop c1'', ''docker rm c1''], availablePorts := [5000]\<rparr>)"
proof -
  have n: "maxStopRetries server1 = 3" and t: "stopTimeout server1 = 10000"
    and c: "containerId server1 = Some ''c1''" and p: "reservedPort server1 = Some 5000"
    by (simp_all add: server1_def server0_def new_SSHServer_def)
  have l: "execLog world0 = []" and e: "elapsed world0 = 0" and a: "availablePorts world0 = []"
    by (simp_all add: world0_def)
  have h1: "persistently_fails (\<lambda>k c. Exec_error ''boom'') (length (execLog world0)) (''docker stop '' @ js_str (containerId server1)) (maxStopRetries server1) ''boom''"
    by (simp add: persistently_fails_def)
  have h2: "0 \<le> maxStopRetries server1
      \<and> succeeds_at (\<lambda>k c. if k < 1 then Exec_ok ''c1'' else Exec_error ''boom'') (length (execLog world0)) (''docker stop '' @ js_str (containerId server1)) 0 ''c1''
      \<and> persistently_fails (\<lambda>k c. if k < 1 then Exec_ok ''c1'' else Exec_error ''boom'') (length (execLog world0) + 0 + 1) (''docker rm '' @ js_str (containerId server1)) (maxStopRetries server1) ''boom''"
    by (simp add: persistently_fails_def succeeds_at_def l)
  have h3: "0 \<le> maxStopRetries server1
      \<and> succeeds_at (\<lambda>k c. Exec_ok ''c1'') (length (execLog world0)) (''docker stop '' @ js_str (containerId server1)) 0 ''c1''
      \<and> 0 \<le> maxStopRetries server1
      \<and> succeeds_at (\<lambda>k c. Exec_ok ''c1'') (length (execLog world0) + 0 + 1) (''docker rm '' @ js_str (containerId server1)) 0 ''c1''
      \<and> reservedPort server1 = Some 5000 \<and> (5000::int) \<noteq> 0"
    by (simp add: succeeds_at_def p)
  note A = stopServer_spec [where ex = "\<lambda>k c. Exec_error ''boom''" and w = world0 and s = server1 and e = "''boom''"]
  note B = stopServer_spec [where ex = "\<lambda>k c. if k < 1 then Exec_ok ''c1'' else Exec_error ''boom''" and w = world0
             and s = server1 and e = "''boom''" and j = 0 and out = "''c1''"]
  note C = stopServer_spec [where ex = "\<lambda>k c. Exec_ok ''c1''" and w = world0
             and s = server1 and j = 0 and out = "''c1''" and k = 0 and out' = "''c1''" and p = 5000]
  have r1: "stopServer (\<lambda>k c. Exec_error ''boom'') server1 world0 =
        (Inl (Error ''Failed to remove server: boom''), server1,
         world0\<lparr>execLog := [''docker stop c1'', ''docker stop c1'', ''docker stop c1'', ''docker stop c1''],
                elapsed := 30000\<rparr>)"
    using A h1 by (simp add: n t c l e numeral_3_eq_3)
  have r1': "availablePorts (snd (snd (stopServer (\<lambda>k c. Exec_error ''boom'') server1 world0))) = availablePorts world0"
    using A r1 by simp
  have r2: "stopServer (\<lambda>k c. if k < 1 then Exec_ok ''c1'' else Exec_error ''boom'') server1 world0 =
        (Inl (Error ''Failed to remove server: boom''), server1,
         world0\<lparr>execLog := [''docker stop c1'', ''docker rm c1'', ''docker rm c1'', ''docker rm c1'', ''docker rm c1''],
                elapsed := 30000\<rparr>)"
    using B h2 by (simp add: n t c l e numeral_3_eq_3)
  have r3: "stopServer (\<lambda>k c. Exec_ok ''c1'') server1 world0 =
        (Inr (), server1\<lparr>reservePort_shadowed := True\<rparr>,
         world0\<lparr>execLog := [''docker stop c1'', ''docker rm c1''], availablePorts := [5000]\<rparr>)"
    using C h3 by (simp add: n t c l e a)
  from h1 h2 h3 r1 r1' r2 r3 show ?thesis by simp
qed

text \<open>
  C5 as stated fails for a lease of port 0. The pool hands out port 0 like any other
  port; \<^verbatim>\<open>freePort\<close> tests the port with \<^verbatim>\<open>if (this.reservedPort)\<close>, which is false for 0, so
  a \<^verbatim>\<open>stopServer\<close> whose two commands succeed resolves and returns nothing to the pool.
\<close>

theorem stopServer_port_zero_counterexample:
  "availablePorts (setPortRange 0 0 world0) = [0]
   \<and> map_option fst (reservePort no_release server0 (setPortRange 0 0 world0)) = Some (Inr 0)
   \<and> reservedPort server_zero = Some 0
   \<and> fst stop_zero = Inr ()
   \<and> execLog (snd (snd stop_zero)) = [''docker stop c1'', ''docker rm c1'']
   \<and> availablePorts (snd (snd stop_zero)) = []"
proof -
  have p: "setPortRange 0 0 world0 = world0\<lparr>availablePorts := [0]\<rparr>"
    using setPortRange_pool(1) [of 0 0 world0] by (simp add: upto_rec1)
  have r: "map_option fst (reservePort no_release server0 (setPortRange 0 0 world0)) = Some (Inr 0)"
    unfolding p
    using fetchAndWaitForPort_head [of "world0\<lparr>availablePorts := [0]\<rparr>" 0 "[]" no_release server0]
    by (simp add: reservePort_def server0_def new_SSHServer_def)
  have s: "fst stop_zero = Inr ()
     \<and> execLog (snd (snd stop_zero)) = [''docker stop c1'', ''docker rm c1'']
     \<and> availablePorts (snd (snd stop_zero)) = []"
    by (simp add: stop_zero_def server_zero_def server0_def new_SSHServer_def world0_def
          stopServer_def runDockerCommand_def runner_docker.simps freePort_def)
  from p r s show ?thesis by (simp add: server_zero_def)
qed

text \<open>
  C6. When the command fails at every attempt, \<^verbatim>\<open>runDockerCommand\<close> with \<open>n\<close> retries hands
  it to \<^verbatim>\<open>exec\<close> exactly \<open>n + 1\<close> times, waits \<open>n\<close> times and rejects with an error whose
  message is the last failure. When attempt \<open>k \<le> n\<close> is the first to succeed, it resolves
  with the standard output of that attempt after exactly \<open>k + 1\<close> calls of \<^verbatim>\<open>exec\<close>.
\<close>

theorem runDockerCommand_attempts:
  "(persistently_fails ex (length (execLog w)) cmd n e \<longrightarrow>
      runDockerCommand ex cmd n t w =
        (Inl (Error e), w\<lparr>execLog := execLog w @ replicate (n + 1) cmd, elapsed := elapsed w + n * t\<rparr>))
   \<and> (k \<le> n \<and> succeeds_at ex (length (execLog w)) cmd k out \<longrightarrow>
      runDockerCommand ex cmd n t w =
        (Inr out, w\<lparr>execLog := execLog w @ replicate (k + 1) cmd, elapsed := elapsed w + k * t\<rparr>))"
  unfolding runDockerCommand_def
  using runner_docker_fails [of 0 n ex w cmd e t] runner_docker_succeeds [of 0 k n ex w cmd out t]
  by simp

theorem runDockerCommand_attempts_witness:
  "persistently_fails (\<lambda>k c. Exec_error ''boom'') (length (execLog world0)) ''docker stop c1'' 2 ''boom''
   \<and> runDockerCommand (\<lambda>k c. Exec_error ''boom'') ''docker stop c1'' 2 10000 world0 =
        (Inl (Error ''boom''),
         world0\<lparr>execLog := [''docker stop c1'', ''docker stop c1'', ''docker stop c1''], elapsed := 20000\<rparr>)
   \<and> (1::nat) \<le> 2
   \<and> succeeds_at (\<lambda>k c. if k < 1 then Exec_error ''boom'' else Exec_ok ''c1'') (length (execLog world0)) ''docker stop c1'' 1 ''c1''
   \<and> runDockerCommand (\<lambda>k c. if k < 1 then Exec_error ''boom'' else Exec_ok ''c1'') ''docker stop c1'' 2 10000 world0 =
        (Inr ''c1'', world0\<lparr>execLog := [''docker stop c1'', ''docker stop c1''], elapsed := 10000\<rparr>)"
proof -
  have f: "persistently_fails (\<lambda>k c. Exec_error ''boom'') (length (execLog world0)) ''docker stop c1'' 2 ''boom''"
    by (simp add: persistently_fails_def)
  have g: "succeeds_at (\<lambda>k c. if k < 1 then Exec_error ''boom'' else Exec_ok ''c1'') (length (execLog world0)) ''docker stop c1'' 1 ''c1''"
    by (simp add: succeeds_at_def world0_def)
  show ?thesis
    using f g
      runDockerCommand_attempts [of "\<lambda>k c. Exec_error ''boom''" world0 "''docker stop c1''" 2 "''boom''" 10000 0 "''''"]
      runDockerCommand_attempts [of "\<lambda>k c. if k < 1 then Exec_error ''boom'' else Exec_ok ''c1''" world0 "''docker stop c1''" 2 "''''" 10000 1 "''c1''"]
    by (simp add: world0_def numeral_3_eq_3)
qed

text \<open>
  C7. The code at the failing input. \<^verbatim>\<open>setPortRange(5000, 5001)\<close> replaces a pool that held
  other ports by 5000 and 5001, two acquisitions lease 5000 and then 5001, and
  \<^verbatim>\<open>setPortRange(5001, 5000)\<close> changes nothing. The third acquisition, on the exhausted
  pool with nobody releasing a port, does not fail: its promise never settles, so
  three acquisitions in a row never finish.
\<close>

theorem setPortRange_then_acquire:
  "setPortRange 5000 5001 world_used = world0\<lparr>availablePorts := [5000, 5001]\<rparr>
   \<and> map_option fst (acquireAll no_release server0 2 (setPortRange 5000 5001 world_used))
       = Some [Inr 5000, Inr 5001]
   \<and> acquireAll no_release server0 3 (setPortRange 5000 5001 world_used) = None
   \<and> setPortRange 5001 5000 world_used = world_used"
proof -
  have u: "[5000..5001] = [5000, 5001::int]" by (simp add: upto_rec1)
  have p: "setPortRange 5000 5001 world_used = world0\<lparr>availablePorts := [5000, 5001]\<rparr>"
    using setPortRange_pool(1) [of 5000 5001 world_used] by (simp add: u world_used_def)
  have a: "availablePorts (world0\<lparr>availablePorts := [5000, 5001]\<rparr>) = [5000, 5001]" by simp
  have two: "map_option fst (acquireAll no_release server0 2 (world0\<lparr>availablePorts := [5000, 5001]\<rparr>))
       = Some [Inr 5000, Inr 5001]"
    using acquireAll_pool [OF a, of no_release server0] by (simp add: numeral_2_eq_2)
  have b: "\<forall>k. no_release k = []" by (simp add: no_release_def)
  have three: "acquireAll no_release server0 3 (world0\<lparr>availablePorts := [5000, 5001]\<rparr>) = None"
    using acquireAll_exhausted [OF b a, of server0] by (simp add: numeral_3_eq_3)
  have n: "setPortRange 5001 5000 world_used = world_used"
    using setPortRange_pool(4) [of 5000 5001 world_used] by simp
  from p two three n show ?thesis by simp
qed

text \<open>
  C8 (as the code has it). When the response reports the state \<^verbatim>\<open>failed\<close> with a
  history, \<^verbatim>\<open>fetchCurrentStatus\<close> resolves with \<^verbatim>\<open>failed\<close> and records as \<open>debugInfo\<close> the
  payload of the first entry of the history, in the order of the response, whose state
  is \<^verbatim>\<open>failed\<close>; without such an entry \<open>debugInfo\<close> keeps its value. \<open>b\<close> is the batch
  identifier of the request, looked up first when the experiment has none.
\<close>

theorem fetchCurrentStatus_failed_debugInfo:
  assumes "valid_URL env (ccAgencyUrl e)"
    and "if falsy (batchId e) then getBatchId env e w = (Inr b, w1) else b = batchId e \<and> w1 = w"
    and "getBatch env (length (requestLog w1)) (''batches/'' @ js_str b) = Parsed doc"
    and "doc_state doc = Some ''failed''" and "doc_history doc = Some h"
  shows "fst (fetchCurrentStatus env e w) = Inr (Some ''failed'')
         \<and> debugInfo (fst (snd (fetchCurrentStatus env e w))) =
             (case find (\<lambda>x. entry_state x = Some ''failed'') h of
                Some x \<Rightarrow> entry_debugInfo x
              | None \<Rightarrow> debugInfo e)"
proof (cases "falsy (batchId e)")
  case True
  with assms(2) have g: "getBatchId env e w = (Inr b, w1)" by simp
  from assms(1,3) have "valid_URL env (ccAgencyUrl (e\<lparr>batchId := b\<rparr>))"
    and "getBatch env (length (requestLog w1)) (''batches/'' @ js_str (batchId (e\<lparr>batchId := b\<rparr>))) = Parsed doc"
    by simp_all
  from requestStatus_failed [OF this assms(4,5)] True g show ?thesis
    by (simp add: fetchCurrentStatus_def scanHistory_find)
next
  case False
  with assms(2) have "b = batchId e" and "w1 = w" by simp_all
  with assms(3) have "getBatch env (length (requestLog w)) (''batches/'' @ js_str (batchId e)) = Parsed doc"
    by simp
  from requestStatus_failed [OF assms(1) this assms(4,5)] False show ?thesis
    by (simp add: fetchCurrentStatus_def scanHistory_find)
qed

theorem fetchCurrentStatus_failed_debugInfo_witness:
  "valid_URL agency_failed (ccAgencyUrl exp_submitted)
   \<and> (if falsy (batchId exp_submitted)
       then getBatchId agency_failed exp_submitted world0
              = (Inr (Some ''b1''), world0\<lparr>requestLog := [(''GET'', ''batches?experimentId=e1'')]\<rparr>)
       else Some ''b1'' = batchId exp_submitted
            \<and> world0\<lparr>requestLog := [(''GET'', ''batches?experimentId=e1'')]\<rparr> = world0)
   \<and> getBatch agency_failed (length (requestLog (world0\<lparr>requestLog := [(''GET'', ''batches?experimentId=e1'')]\<rparr>)))
        (''batches/'' @ js_str (Some ''b1''))
       = Parsed \<lparr>doc_state = Some ''failed'', doc_history = Some history_two_failures\<rparr>
   \<and> fst (fetchCurrentStatus agency_failed exp_submitted world0) = Inr (Some ''failed'')
   \<and> debugInfo (fst (snd (fetchCurrentStatus agency_failed exp_submitted world0))) = JStr ''first failure''"
proof -
  let ?w1 = "world0\<lparr>requestLog := [(''GET'', ''batches?experimentId=e1'')]\<rparr>"
  have a: "valid_URL agency_failed (ccAgencyUrl exp_submitted)"
    by (simp add: exp_submitted_def exp0_def new_CCExperiment_def agency_failed_def agency0_def)
  have b: "if falsy (batchId exp_submitted)
       then getBatchId agency_failed exp_submitted world0 = (Inr (Some ''b1''), ?w1)
       else Some ''b1'' = batchId exp_submitted \<and> ?w1 = world0"
    by (simp add: exp_submitted_def exp0_def new_CCExperiment_def agency_failed_def agency0_def
          getBatchId_def send_def world0_def Let_def)
  have c: "getBatch agency_failed (length (requestLog ?w1)) (''batches/'' @ js_str (Some ''b1''))
       = Parsed \<lparr>doc_state = Some ''failed'', doc_history = Some history_two_failures\<rparr>"
    by (simp add: agency_failed_def agency0_def)
  have d: "doc_state \<lparr>doc_state = Some ''failed'', doc_history = Some history_two_failures\<rparr> = Some ''failed''"
    and f: "doc_history \<lparr>doc_state = Some ''failed'', doc_history = Some history_two_failures\<rparr> = Some history_two_failures"
    by simp_all
  have r: "fst (fetchCurrentStatus agency_failed exp_submitted world0) = Inr (Some ''failed'')
         \<and> debugInfo (fst (snd (fetchCurrentStatus agency_failed exp_submitted world0))) = JStr ''first failure''"
    using fetchCurrentStatus_failed_debugInfo [OF a b c d f] by (simp add: history_two_failures_def)
  from a b c r show ?thesis by blast
qed

text \<open>
  C8 as stated fails: on a history with two failed entries the most recent one carries
  \<^verbatim>\<open>second failure\<close>, and the experiment records \<^verbatim>\<open>first failure\<close>.
\<close>

theorem fetchCurrentStatus_debugInfo_counterexample:
  "history_two_failures \<noteq> []
   \<and> map_option entry_debugInfo (mostRecentFailed history_two_failures) = Some (JStr ''second failure'')
   \<and> fst (fetchCurrentStatus agency_failed exp_known world0) = Inr (Some ''failed'')
   \<and> debugInfo (fst (snd (fetchCurrentStatus agency_failed exp_known world0))) = JStr ''first failure''
   \<and> Some (debugInfo (fst (snd (fetchCurrentStatus agency_failed exp_known world0))))
       \<noteq> map_option entry_debugInfo (mostRecentFailed history_two_failures)"
  by (simp add: mostRecentFailed_def history_two_failures_def fetchCurrentStatus_def requestStatus_def
        exp_known_def exp0_def new_CCExperiment_def agency_failed_def agency0_def world0_def
        stopAttached_def clearTimeoutTimer_def send_def Let_def)

text \<open>
  C9. When the response to a stream request arrives with a status code of 400 or more,
  \<^verbatim>\<open>getStd\<close> resolves with the empty string, and so do \<^verbatim>\<open>getStdout\<close> and \<^verbatim>\<open>getStderr\<close>.
\<close>

theorem getStd_error_status:
  assumes "valid_URL env (ccAgencyUrl e)"
    and "getBatchStream env (length (requestLog w)) (''batches/'' @ js_str (batchId e) @ ''/'' @ stream)
           = Response statusCode buffer"
    and "statusCode \<ge> 400"
  shows "fst (getStd env e stream w) = Inr ''''
         \<and> (stream = ''stdout'' \<longrightarrow> fst (getStdout env e w) = Inr '''')
         \<and> (stream = ''stderr'' \<longrightarrow> fst (getStderr env e w) = Inr '''')"
  using assms by (auto simp: getStd_def getStdout_def getStderr_def Let_def)

theorem getStd_error_status_witness:
  "valid_URL agency_404 (ccAgencyUrl exp_polling)
   \<and> getBatchStream agency_404 (length (requestLog world0)) (''batches/'' @ js_str (batchId exp_polling) @ ''/'' @ ''stdout'')
       = Response 404 ''<html>Not Found</html>''
   \<and> getBatchStream agency_404 (length (requestLog world0)) (''batches/'' @ js_str (batchId exp_polling) @ ''/'' @ ''stderr'')
       = Response 404 ''<html>Not Found</html>''
   \<and> (404::nat) \<ge> 400
   \<and> fst (getStd agency_404 exp_polling ''stdout'' world0) = Inr ''''
   \<and> fst (getStdout agency_404 exp_polling world0) = Inr ''''
   \<and> fst (getStderr agency_404 exp_polling world0) = Inr ''''"
proof -
  have a: "valid_URL agency_404 (ccAgencyUrl exp_polling)"
    by (simp add: agency_404_def agency0_def exp_polling_def exp0_def new_CCExperiment_def)
  have b: "getBatchStream agency_404 (length (requestLog world0)) (''batches/'' @ js_str (batchId exp_polling) @ ''/'' @ ''stdout'')
       = Response 404 ''<html>Not Found</html>''"
    and b': "getBatchStream agency_404 (length (requestLog world0)) (''batches/'' @ js_str (batchId exp_polling) @ ''/'' @ ''stderr'')
       = Response 404 ''<html>Not Found</html>''"
    by (simp_all add: agency_404_def agency0_def)
  have c: "(404::nat) \<ge> 400" by simp
  from a b b' c getStd_error_status [OF a b c] getStd_error_status [OF a b' c] show ?thesis by simp
qed

text \<open>
  C10. On an experiment without inputs and without a job description,
  \<^verbatim>\<open>startExperiment\<close> rejects with \<^verbatim>\<open>No inputs defined! Add at least one input.\<close> and leaves
  the experiment and the world as they were: no server is started, no command is run,
  no request is sent.
\<close>

theorem startExperiment_no_inputs:
  assumes "inputs e = []" and "red e = None"
  shows "startExperiment env e w = (Inl (Error ''No inputs defined! Add at least one input.''), e, w)"
  using assms by (simp add: startExperiment_def createRED_def getREDInputs_def)

theorem startExperiment_no_inputs_witness:
  "inputs exp_no_inputs = [] \<and> red exp_no_inputs = None
   \<and> startExperiment agency0 exp_no_inputs world0 =
       (Inl (Error ''No inputs defined! Add at least one input.''), exp_no_inputs, world0)"
proof -
  have a: "inputs exp_no_inputs = []" and b: "red exp_no_inputs = None"
    by (simp_all add: exp_no_inputs_def exp0_def setSSHServer_def new_CCExperiment_def)
  from a b startExperiment_no_inputs [OF a b, of agency0 world0] show ?thesis by simp
qed

end
